theory Spec2Isabelle
  imports Complex_Main
begin

section \<open>Payment transaction generator (data\_generator.py)\<close>

text \<open>
  The script is one linear batch computation over numpy arrays. Each array is a list
  here, each stage of the script a function named after the variable it assigns.

  The random generator is modelled by what its calls return: every call site of
  \<open>rng\<close> has a stream (a function from the position of the draw to its value) in the record
  \<open>draws\<close>, and \<open>rng.xxx(size=n)\<close> is the first \<open>n\<close> values of its stream. The contract
  of numpy on those values (an index drawn by \<open>choice\<close> lies inside the list, an integer
  drawn by \<open>integers(low, high)\<close> lies in \<open>[low, high)\<close>) is stated by the predicates
  \<open>wf_choices\<close> and \<open>wf_seconds\<close>.

  Finite floating-point values are idealised as real numbers (no rounding error, no
  overflow, no signed zero); the special values that float64 arithmetic produces without
  raising (NaN and the infinities) are kept, as the datatype \<open>float64\<close>.
\<close>

subsection \<open>Errors\<close>

datatype py_error = KeyError | ValueError

subsection \<open>Dimension tables\<close>

datatype merchant_category =
  E_commerce | SaaS_Subscription | Travel | Retail | Marketplaces | Gaming | Healthcare
  | Food_Delivery

datatype geography = US | EU | UK | IN | BR | SG | CA | AU

datatype payment_method = Credit_Card | Debit_Card | Digital_Wallet | Bank_Transfer | BNPL

record mc_params =
  mc_weight :: real
  avg_amount :: real
  fail_base :: real

record geo_params =
  geo_weight :: real
  geo_fail_mult :: real
  currency :: string

record pm_params =
  pm_weight :: real
  pm_fail_mult :: real

fun MERCHANT_CATEGORIES :: "merchant_category \<Rightarrow> mc_params" where
  "MERCHANT_CATEGORIES E_commerce = \<lparr>mc_weight = 0.28, avg_amount = 85, fail_base = 0.09\<rparr>"
| "MERCHANT_CATEGORIES SaaS_Subscription = \<lparr>mc_weight = 0.18, avg_amount = 55, fail_base = 0.06\<rparr>"
| "MERCHANT_CATEGORIES Travel = \<lparr>mc_weight = 0.12, avg_amount = 420, fail_base = 0.13\<rparr>"
| "MERCHANT_CATEGORIES Retail = \<lparr>mc_weight = 0.14, avg_amount = 65, fail_base = 0.07\<rparr>"
| "MERCHANT_CATEGORIES Marketplaces = \<lparr>mc_weight = 0.10, avg_amount = 140, fail_base = 0.11\<rparr>"
| "MERCHANT_CATEGORIES Gaming = \<lparr>mc_weight = 0.08, avg_amount = 25, fail_base = 0.10\<rparr>"
| "MERCHANT_CATEGORIES Healthcare = \<lparr>mc_weight = 0.06, avg_amount = 310, fail_base = 0.05\<rparr>"
| "MERCHANT_CATEGORIES Food_Delivery = \<lparr>mc_weight = 0.04, avg_amount = 38, fail_base = 0.08\<rparr>"

fun GEOGRAPHIES :: "geography \<Rightarrow> geo_params" where
  "GEOGRAPHIES US = \<lparr>geo_weight = 0.42, geo_fail_mult = 1.00, currency = ''USD''\<rparr>"
| "GEOGRAPHIES EU = \<lparr>geo_weight = 0.20, geo_fail_mult = 0.90, currency = ''EUR''\<rparr>"
| "GEOGRAPHIES UK = \<lparr>geo_weight = 0.10, geo_fail_mult = 0.92, currency = ''GBP''\<rparr>"
| "GEOGRAPHIES IN = \<lparr>geo_weight = 0.08, geo_fail_mult = 1.35, currency = ''INR''\<rparr>"
| "GEOGRAPHIES BR = \<lparr>geo_weight = 0.06, geo_fail_mult = 1.45, currency = ''BRL''\<rparr>"
| "GEOGRAPHIES SG = \<lparr>geo_weight = 0.05, geo_fail_mult = 0.85, currency = ''SGD''\<rparr>"
| "GEOGRAPHIES CA = \<lparr>geo_weight = 0.05, geo_fail_mult = 0.95, currency = ''CAD''\<rparr>"
| "GEOGRAPHIES AU = \<lparr>geo_weight = 0.04, geo_fail_mult = 0.88, currency = ''AUD''\<rparr>"

fun PAYMENT_METHODS :: "payment_method \<Rightarrow> pm_params" where
  "PAYMENT_METHODS Credit_Card = \<lparr>pm_weight = 0.38, pm_fail_mult = 0.90\<rparr>"
| "PAYMENT_METHODS Debit_Card = \<lparr>pm_weight = 0.25, pm_fail_mult = 1.10\<rparr>"
| "PAYMENT_METHODS Digital_Wallet = \<lparr>pm_weight = 0.18, pm_fail_mult = 0.75\<rparr>"
| "PAYMENT_METHODS Bank_Transfer = \<lparr>pm_weight = 0.10, pm_fail_mult = 1.20\<rparr>"
| "PAYMENT_METHODS BNPL = \<lparr>pm_weight = 0.09, pm_fail_mult = 1.40\<rparr>"

subsection \<open>Failure codes\<close>

text \<open>
  \<open>FAILURE_CODES\<close> is a dict from the code to a pair (is it retryable, description). The
  order of insertion decides the order of \<open>RETRY_CODES\<close> and \<open>NON_RETRY_CODES\<close>, so the dict
  is an association list. The descriptions are never read by the script; they are kept with
  their dash written \<open>-\<close>.
\<close>

definition FAILURE_CODES :: "(string \<times> bool \<times> string) list" where
  "FAILURE_CODES =
    [(''insufficient_funds'', True, ''Insufficient funds - retry after top-up''),
     (''card_expired'', False, ''Card expired - requires new card''),
     (''do_not_honor'', True, ''Generic bank decline - retryable''),
     (''incorrect_cvc'', False, ''CVC mismatch - requires customer action''),
     (''lost_card'', False, ''Card reported lost - permanent block''),
     (''stolen_card'', False, ''Card reported stolen - permanent block''),
     (''processing_error'', True, ''Processor error - retry immediately''),
     (''network_timeout'', True, ''Network timeout - retry''),
     (''velocity_exceeded'', True, ''Velocity limit hit - retry after cooldown''),
     (''fraud_suspected'', False, ''Fraud flag - requires review''),
     (''currency_not_supported'', False, ''Currency mismatch - not retryable''),
     (''amount_too_large'', False, ''Exceeds card limit - not retryable'')]"

definition RETRY_CODES :: "string list" where
  "RETRY_CODES = map fst (filter (\<lambda>(c, r, _). r) FAILURE_CODES)"

definition NON_RETRY_CODES :: "string list" where
  "NON_RETRY_CODES = map fst (filter (\<lambda>(c, r, _). \<not> r) FAILURE_CODES)"

definition RETRY_RECOVERY :: "(string \<times> real) list" where
  "RETRY_RECOVERY =
    [(''insufficient_funds'', 0.45),
     (''do_not_honor'', 0.60),
     (''processing_error'', 0.82),
     (''network_timeout'', 0.88),
     (''velocity_exceeded'', 0.55)]"

text \<open>\<open>d.get(k, default)\<close> of a dict.\<close>

definition dict_get :: "('k \<times> 'v) list \<Rightarrow> 'k \<Rightarrow> 'v \<Rightarrow> 'v" where
  "dict_get d k dflt = (case map_of d k of Some v \<Rightarrow> v | None \<Rightarrow> dflt)"

subsection \<open>float64 values\<close>

text \<open>
  A float64 is a finite value (idealised as a real), an infinity or NaN. The operations
  are numpy's: none of them raises, a division by zero gives an infinity or NaN (numpy
  prints a RuntimeWarning and goes on), NaN propagates through arithmetic, \<open>maximum\<close>,
  \<open>minimum\<close> and \<open>round\<close>, and every comparison with NaN is false.
\<close>

datatype float64 = Fin real | PInf | NInf | NaN

fun np_negative :: "float64 \<Rightarrow> float64" where
  "np_negative (Fin a) = Fin (- a)"
| "np_negative PInf = NInf"
| "np_negative NInf = PInf"
| "np_negative NaN = NaN"

fun np_add :: "float64 \<Rightarrow> float64 \<Rightarrow> float64" where
  "np_add NaN _ = NaN"
| "np_add _ NaN = NaN"
| "np_add (Fin a) (Fin b) = Fin (a + b)"
| "np_add PInf NInf = NaN"
| "np_add NInf PInf = NaN"
| "np_add PInf _ = PInf"
| "np_add _ PInf = PInf"
| "np_add NInf _ = NInf"
| "np_add _ NInf = NInf"

definition np_subtract :: "float64 \<Rightarrow> float64 \<Rightarrow> float64" where
  "np_subtract a b = np_add a (np_negative b)"

fun np_multiply :: "float64 \<Rightarrow> float64 \<Rightarrow> float64" where
  "np_multiply NaN _ = NaN"
| "np_multiply _ NaN = NaN"
| "np_multiply (Fin a) (Fin b) = Fin (a * b)"
| "np_multiply PInf (Fin b) = (if b = 0 then NaN else if 0 < b then PInf else NInf)"
| "np_multiply NInf (Fin b) = (if b = 0 then NaN else if 0 < b then NInf else PInf)"
| "np_multiply (Fin a) PInf = (if a = 0 then NaN else if 0 < a then PInf else NInf)"
| "np_multiply (Fin a) NInf = (if a = 0 then NaN else if 0 < a then NInf else PInf)"
| "np_multiply PInf PInf = PInf"
| "np_multiply NInf NInf = PInf"
| "np_multiply PInf NInf = NInf"
| "np_multiply NInf PInf = NInf"

fun np_divide :: "float64 \<Rightarrow> float64 \<Rightarrow> float64" where
  "np_divide NaN _ = NaN"
| "np_divide _ NaN = NaN"
| "np_divide (Fin a) (Fin b) =
     (if b \<noteq> 0 then Fin (a / b)
      else if a = 0 then NaN
      else if 0 < a then PInf else NInf)"
| "np_divide (Fin a) _ = Fin 0"
| "np_divide PInf (Fin b) = (if 0 \<le> b then PInf else NInf)"
| "np_divide NInf (Fin b) = (if 0 \<le> b then NInf else PInf)"
| "np_divide _ _ = NaN"

fun np_exp :: "float64 \<Rightarrow> float64" where
  "np_exp (Fin a) = Fin (exp a)"
| "np_exp PInf = PInf"
| "np_exp NInf = Fin 0"
| "np_exp NaN = NaN"

fun np_log :: "float64 \<Rightarrow> float64" where
  "np_log (Fin a) = (if 0 < a then Fin (ln a) else if a = 0 then NInf else NaN)"
| "np_log PInf = PInf"
| "np_log NInf = NaN"
| "np_log NaN = NaN"

fun np_less :: "float64 \<Rightarrow> float64 \<Rightarrow> bool" where
  "np_less NaN _ = False"
| "np_less _ NaN = False"
| "np_less (Fin a) (Fin b) = (a < b)"
| "np_less _ NInf = False"
| "np_less PInf _ = False"
| "np_less _ _ = True"

definition np_less_equal :: "float64 \<Rightarrow> float64 \<Rightarrow> bool" where
  "np_less_equal a b = (np_less a b \<or> (a = b \<and> a \<noteq> NaN))"

definition np_maximum :: "float64 \<Rightarrow> float64 \<Rightarrow> float64" where
  "np_maximum a b = (if a = NaN \<or> b = NaN then NaN else if np_less a b then b else a)"

definition np_minimum :: "float64 \<Rightarrow> float64 \<Rightarrow> float64" where
  "np_minimum a b = (if a = NaN \<or> b = NaN then NaN else if np_less b a then b else a)"

definition np_clip :: "float64 \<Rightarrow> float64 \<Rightarrow> float64 \<Rightarrow> float64" where
  "np_clip a lo hi = np_minimum (np_maximum a lo) hi"

text \<open>Rounding to the nearest integer, a tie to the even one (\<open>rint\<close>).\<close>

definition rint :: "real \<Rightarrow> int" where
  "rint x =
     (let f = \<lfloor>x\<rfloor>; r = x - of_int f
      in if r < 1 / 2 then f else if 1 / 2 < r then f + 1 else if even f then f else f + 1)"

text \<open>\<open>np.round(a, decimals)\<close>: scale by a power of ten, \<open>rint\<close>, scale back.\<close>

fun np_round :: "float64 \<Rightarrow> nat \<Rightarrow> float64" where
  "np_round (Fin a) decimals = Fin (of_int (rint (a * 10 ^ decimals)) / 10 ^ decimals)"
| "np_round x _ = x"

text \<open>
  Python's builtin \<open>max(a, b)\<close> keeps \<open>a\<close> unless \<open>b > a\<close>; with \<open>b\<close> NaN the comparison
  is false and \<open>a\<close> is returned.
\<close>

definition py_max :: "float64 \<Rightarrow> float64 \<Rightarrow> float64" where
  "py_max a b = (if np_less a b then b else a)"

text \<open>\<open>a.min()\<close> and \<open>a.max()\<close> of an array: NaN propagates, an empty array raises.\<close>

definition amin :: "float64 list \<Rightarrow> py_error + float64" where
  "amin xs = (case xs of [] \<Rightarrow> Inl ValueError | x # r \<Rightarrow> Inr (fold (\<lambda>y m. np_minimum m y) r x))"

definition amax :: "float64 list \<Rightarrow> py_error + float64" where
  "amax xs = (case xs of [] \<Rightarrow> Inl ValueError | x # r \<Rightarrow> Inr (fold (\<lambda>y m. np_maximum m y) r x))"

subsection \<open>The random draws\<close>

text \<open>
  One stream per call site of \<open>rng\<close>, in the order of the script. \<open>rng.choice\<close> with
  weights returns one of the keys; \<open>rng.lognormal\<close> and \<open>rng.normal\<close> are a location plus
  a scale times a standard normal draw (exponentiated for the log-normal), so their streams
  hold the standard normal draws; \<open>rng.choice\<close> without weights draws an index into the list.
\<close>

record draws =
  d_merchant_cats :: "nat \<Rightarrow> merchant_category"
  d_geos :: "nat \<Rightarrow> geography"
  d_pay_methods :: "nat \<Rightarrow> payment_method"
  d_lognormal_z :: "nat \<Rightarrow> real"
  d_raw_seconds :: "nat \<Rightarrow> int"
  d_noise_z :: "nat \<Rightarrow> real"
  d_outcome_u :: "nat \<Rightarrow> real"
  d_retryable_u :: "nat \<Rightarrow> real"
  d_retry_choice :: "nat \<Rightarrow> nat"
  d_nonretry_choice :: "nat \<Rightarrow> nat"
  d_recovery_u :: "nat \<Rightarrow> real"

definition lognormal :: "float64 \<Rightarrow> float64 \<Rightarrow> real \<Rightarrow> float64" where
  "lognormal mean sigma z = np_exp (np_add mean (np_multiply sigma (Fin z)))"

definition normal :: "float64 \<Rightarrow> float64 \<Rightarrow> real \<Rightarrow> float64" where
  "normal loc scale z = np_add loc (np_multiply scale (Fin z))"

subsection \<open>Sampled dimensions\<close>

definition merchant_cats :: "draws \<Rightarrow> nat \<Rightarrow> merchant_category list" where
  "merchant_cats d N = map (d_merchant_cats d) [0..<N]"

definition geos :: "draws \<Rightarrow> nat \<Rightarrow> geography list" where
  "geos d N = map (d_geos d) [0..<N]"

definition pay_methods :: "draws \<Rightarrow> nat \<Rightarrow> payment_method list" where
  "pay_methods d N = map (d_pay_methods d) [0..<N]"

subsection \<open>Transaction amounts\<close>

text \<open>The comprehension calls \<open>rng.lognormal\<close> once per row, in row order.\<close>

definition amounts_raw :: "draws \<Rightarrow> merchant_category list \<Rightarrow> float64 list" where
  "amounts_raw d mcs =
     map (\<lambda>(i, mc).
            py_max (Fin 1.0)
              (lognormal (np_log (Fin (avg_amount (MERCHANT_CATEGORIES mc)))) (Fin 0.7)
                 (d_lognormal_z d i)))
         (enumerate 0 mcs)"

definition amounts :: "draws \<Rightarrow> merchant_category list \<Rightarrow> float64 list" where
  "amounts d mcs = map (\<lambda>a. np_round a 2) (amounts_raw d mcs)"

subsection \<open>Timestamps\<close>

text \<open>
  A timestamp is its number of seconds since 1970-01-01 00:00:00. \<open>pd.Timestamp\<close> of a
  date is the midnight that begins the date; the day number of a civil date is computed
  in the proleptic Gregorian calendar.
\<close>

definition days_from_civil :: "int \<Rightarrow> int \<Rightarrow> int \<Rightarrow> int" where
  "days_from_civil y m dd =
     (let y' = (if m \<le> 2 then y - 1 else y);
          era = y' div 400;
          yoe = y' - era * 400;
          doy = (153 * (if 2 < m then m - 3 else m + 9) + 2) div 5 + dd - 1;
          doe = yoe * 365 + yoe div 4 - yoe div 100 + doy
      in era * 146097 + doe - 719468)"

definition Timestamp :: "int \<Rightarrow> int \<Rightarrow> int \<Rightarrow> int" where
  "Timestamp y m dd = days_from_civil y m dd * 86400"

definition start_ts :: int where
  "start_ts = Timestamp 2023 7 1"

definition end_ts :: int where
  "end_ts = Timestamp 2024 12 31"

definition total_seconds :: int where
  "total_seconds = end_ts - start_ts"

definition raw_seconds :: "draws \<Rightarrow> nat \<Rightarrow> int list" where
  "raw_seconds d N = map (d_raw_seconds d) [0..<N]"

definition timestamps :: "int list \<Rightarrow> int list" where
  "timestamps secs = map (\<lambda>k. start_ts + k) secs"

text \<open>The calendar date of a timestamp, as its day number.\<close>

definition day_of :: "int \<Rightarrow> int" where
  "day_of t = t div 86400"

definition hours :: "int list \<Rightarrow> int list" where
  "hours ts = map (\<lambda>t. (t mod 86400) div 3600) ts"

text \<open>Monday is 0; 1970-01-01 was a Thursday.\<close>

definition dow :: "int list \<Rightarrow> int list" where
  "dow ts = map (\<lambda>t. (day_of t + 3) mod 7) ts"

definition weekend :: "int list \<Rightarrow> bool list" where
  "weekend ds = map (\<lambda>x. x \<in> {5, 6}) ds"

subsection \<open>Risk score and failure model\<close>

definition mc_base :: "merchant_category list \<Rightarrow> float64 list" where
  "mc_base mcs = map (\<lambda>mc. Fin (fail_base (MERCHANT_CATEGORIES mc))) mcs"

definition geo_mult :: "geography list \<Rightarrow> float64 list" where
  "geo_mult gs = map (\<lambda>g. Fin (geo_fail_mult (GEOGRAPHIES g))) gs"

definition pm_mult :: "payment_method list \<Rightarrow> float64 list" where
  "pm_mult pms = map (\<lambda>pm. Fin (pm_fail_mult (PAYMENT_METHODS pm))) pms"

definition amount_risk :: "float64 list \<Rightarrow> float64 list" where
  "amount_risk ams =
     map (\<lambda>a. np_clip (np_divide (np_subtract a (Fin 50)) (Fin 1000)) (Fin 0) (Fin 0.12)) ams"

definition raw_risk ::
  "merchant_category list \<Rightarrow> geography list \<Rightarrow> payment_method list \<Rightarrow> float64 list
     \<Rightarrow> float64 list" where
  "raw_risk mcs gs pms ams =
     map2 np_add
       (map2 np_multiply (map2 np_multiply (mc_base mcs) (geo_mult gs)) (pm_mult pms))
       (amount_risk ams)"

text \<open>
  Min-max normalisation over the batch. \<open>min()\<close> of an empty array raises; the
  division itself never does.
\<close>

definition risk_score_base :: "float64 list \<Rightarrow> py_error + float64 list" where
  "risk_score_base raw =
     (case amin raw of
        Inl e \<Rightarrow> Inl e
      | Inr risk_min \<Rightarrow>
          (case amax raw of
             Inl e \<Rightarrow> Inl e
           | Inr risk_max \<Rightarrow>
               Inr (map (\<lambda>x. np_divide (np_subtract x risk_min) (np_subtract risk_max risk_min))
                      raw)))"

definition noise :: "draws \<Rightarrow> nat \<Rightarrow> float64 list" where
  "noise d N = map (\<lambda>i. normal (Fin 0) (Fin 0.04) (d_noise_z d i)) [0..<N]"

definition pre_auth_risk_score :: "float64 list \<Rightarrow> float64 list \<Rightarrow> float64 list" where
  "pre_auth_risk_score base ns = map2 (\<lambda>b n. np_clip (np_add b n) (Fin 0) (Fin 1)) base ns"

definition sigmoid :: "float64 \<Rightarrow> float64" where
  "sigmoid x = np_divide (Fin 1) (np_add (Fin 1) (np_exp (np_negative x)))"

definition THRESHOLD :: float64 where
  "THRESHOLD = Fin 0.45"

definition SIGMA_const :: float64 where
  "SIGMA_const = Fin 0.025"

text \<open>
  One element of \<open>fail_probs\<close>: the first assignment, then the clip. (\<open>SIGMA\<close> of the
  script is \<open>SIGMA_const\<close>: the name is taken in HOL.)
\<close>

definition fail_prob :: "float64 \<Rightarrow> float64" where
  "fail_prob score =
     (let p = np_add (np_multiply (sigmoid (np_divide (np_subtract score THRESHOLD) SIGMA_const))
                        (Fin 0.40))
                (Fin 0.03)
      in np_clip p (Fin 0.02) (Fin 0.90))"

definition fail_probs :: "float64 list \<Rightarrow> float64 list" where
  "fail_probs scores = map fail_prob scores"

definition is_failed :: "draws \<Rightarrow> float64 list \<Rightarrow> bool list" where
  "is_failed d fps = map (\<lambda>(i, p). np_less (Fin (d_outcome_u d i)) p) (enumerate 0 fps)"

subsection \<open>Failure codes\<close>

text \<open>A string stored in an array of dtype \<open><U30\<close> keeps its first 30 characters.\<close>

definition astype_U30 :: "string \<Rightarrow> string" where
  "astype_U30 s = take 30 s"

definition failure_codes_init :: "bool list \<Rightarrow> string list" where
  "failure_codes_init failed =
     map (\<lambda>f. astype_U30 (if f then ''pending_code'' else ''success'')) failed"

definition failed_idx :: "bool list \<Rightarrow> nat list" where
  "failed_idx failed = filter (\<lambda>i. failed ! i) [0..<length failed]"

definition retryable_mask :: "draws \<Rightarrow> nat \<Rightarrow> bool list" where
  "retryable_mask d n_failed = map (\<lambda>j. d_retryable_u d j < 0.60) [0..<n_failed]"

definition retry_assigns :: "draws \<Rightarrow> nat \<Rightarrow> string list" where
  "retry_assigns d n_failed = map (\<lambda>j. RETRY_CODES ! d_retry_choice d j) [0..<n_failed]"

definition nonretry_assigns :: "draws \<Rightarrow> nat \<Rightarrow> string list" where
  "nonretry_assigns d n_failed =
     map (\<lambda>j. NON_RETRY_CODES ! d_nonretry_choice d j) [0..<n_failed]"

definition assigned_codes :: "draws \<Rightarrow> nat \<Rightarrow> string list" where
  "assigned_codes d n_failed =
     map (\<lambda>i. if retryable_mask d n_failed ! i then retry_assigns d n_failed ! i
               else nonretry_assigns d n_failed ! i)
         [0..<n_failed]"

text \<open>
  \<open>a[idx] = vals\<close> with an index array: the k-th value is stored at the k-th index. Here
  both have \<open>n_failed\<close> elements.
\<close>

fun put :: "'a list \<Rightarrow> nat list \<Rightarrow> 'a list \<Rightarrow> 'a list" where
  "put xs (i # idx) (v # vals) = put (xs[i := v]) idx vals"
| "put xs _ _ = xs"

definition failure_codes :: "draws \<Rightarrow> bool list \<Rightarrow> string list" where
  "failure_codes d failed =
     put (failure_codes_init failed) (failed_idx failed)
       (map astype_U30 (assigned_codes d (length (failed_idx failed))))"

subsection \<open>Retryable flag and recovery\<close>

text \<open>\<open>FAILURE_CODES[c][0]\<close> raises KeyError for a code that is not a key.\<close>

definition lookup_retryable :: "string \<Rightarrow> py_error + bool" where
  "lookup_retryable c =
     (if c \<noteq> ''success''
      then (case map_of FAILURE_CODES c of None \<Rightarrow> Inl KeyError | Some (r, _) \<Rightarrow> Inr r)
      else Inr False)"

fun is_retryable :: "string list \<Rightarrow> py_error + bool list" where
  "is_retryable [] = Inr []"
| "is_retryable (c # cs) =
     (case lookup_retryable c of
        Inl e \<Rightarrow> Inl e
      | Inr r \<Rightarrow> (case is_retryable cs of Inl e \<Rightarrow> Inl e | Inr rs \<Rightarrow> Inr (r # rs)))"

text \<open>\<open>failed_idx[retryable_mask]\<close>: the failed rows whose mask is set.\<close>

definition retryable_failed_idx :: "nat list \<Rightarrow> bool list \<Rightarrow> nat list" where
  "retryable_failed_idx idx msk = map fst (filter snd (zip idx msk))"

text \<open>The loop draws \<open>rng.random()\<close> once per iteration; \<open>k\<close> counts the iterations.\<close>

fun recovery_loop :: "draws \<Rightarrow> string list \<Rightarrow> bool list \<Rightarrow> nat \<Rightarrow> nat list \<Rightarrow> bool list" where
  "recovery_loop d codes rr k [] = rr"
| "recovery_loop d codes rr k (idx # rest) =
     (let code = codes ! idx;
          recovery_rate = dict_get RETRY_RECOVERY code 0.50
      in recovery_loop d codes (rr[idx := d_recovery_u d k < recovery_rate]) (Suc k) rest)"

definition retry_recovered :: "draws \<Rightarrow> bool list \<Rightarrow> string list \<Rightarrow> bool list" where
  "retry_recovered d failed codes =
     recovery_loop d codes (replicate (length failed) False) 0
       (retryable_failed_idx (failed_idx failed)
          (retryable_mask d (length (failed_idx failed))))"

definition is_recoverable :: "bool list \<Rightarrow> bool list \<Rightarrow> bool list \<Rightarrow> bool list" where
  "is_recoverable retr recd failed =
     map (\<lambda>(a, b, c). a \<and> \<not> b \<and> c) (zip retr (zip recd failed))"

subsection \<open>The assembled table\<close>

text \<open>
  One record per row of the data frame. The columns \<open>transaction_id\<close>, \<open>merchant_id\<close>,
  \<open>month\<close> and \<open>year\<close> do not enter any property below and are left out; the boolean
  columns are written as integers (\<open>astype(int)\<close>), the status as a string.
\<close>

record row =
  col_timestamp :: int
  col_merchant_category :: merchant_category
  col_geography :: geography
  col_currency :: string
  col_payment_method :: payment_method
  col_amount_usd :: float64
  col_pre_auth_risk_score :: float64
  col_status :: string
  col_failure_code :: string
  col_is_retryable :: int
  col_retry_recovered :: int
  col_is_recoverable :: int
  col_hour_of_day :: int
  col_day_of_week :: int
  col_is_weekend :: int

definition astype_int :: "bool \<Rightarrow> int" where
  "astype_int b = (if b then 1 else 0)"

definition generate :: "draws \<Rightarrow> nat \<Rightarrow> py_error + row list" where
  "generate d N =
     (let mcs = merchant_cats d N;
          gs = geos d N;
          pms = pay_methods d N;
          ams = amounts d mcs;
          ts = timestamps (raw_seconds d N);
          hrs = hours ts;
          dws = dow ts;
          wknd = weekend dws
      in case risk_score_base (raw_risk mcs gs pms ams) of
           Inl e \<Rightarrow> Inl e
         | Inr base \<Rightarrow>
             (let scores = pre_auth_risk_score base (noise d N);
                  failed = is_failed d (fail_probs scores);
                  codes = failure_codes d failed
              in case is_retryable codes of
                   Inl e \<Rightarrow> Inl e
                 | Inr retr \<Rightarrow>
                     (let recd = retry_recovered d failed codes;
                          recov = is_recoverable retr recd failed
                      in Inr (map (\<lambda>i.
                           \<lparr>col_timestamp = ts ! i,
                            col_merchant_category = mcs ! i,
                            col_geography = gs ! i,
                            col_currency = currency (GEOGRAPHIES (gs ! i)),
                            col_payment_method = pms ! i,
                            col_amount_usd = ams ! i,
                            col_pre_auth_risk_score = np_round (scores ! i) 4,
                            col_status = (if failed ! i then ''failed'' else ''success''),
                            col_failure_code = codes ! i,
                            col_is_retryable = astype_int (retr ! i),
                            col_retry_recovered = astype_int (recd ! i),
                            col_is_recoverable = astype_int (recov ! i),
                            col_hour_of_day = hrs ! i,
                            col_day_of_week = dws ! i,
                            col_is_weekend = astype_int (wknd ! i)\<rparr>) [0..<N]))))"

subsection \<open>What numpy guarantees of the draws\<close>

text \<open>An index drawn by \<open>rng.choice\<close> over a list lies inside the list.\<close>

definition wf_choices :: "draws \<Rightarrow> nat \<Rightarrow> bool" where
  "wf_choices d N =
     list_all (\<lambda>j. d_retry_choice d j < length RETRY_CODES
                 \<and> d_nonretry_choice d j < length NON_RETRY_CODES) [0..<N]"

text \<open>\<open>rng.integers(0, total_seconds)\<close> draws from the half-open range.\<close>

definition integers_range :: "int \<Rightarrow> int \<Rightarrow> int \<Rightarrow> bool" where
  "integers_range low high k = (low \<le> k \<and> k < high)"

definition wf_seconds :: "draws \<Rightarrow> nat \<Rightarrow> bool" where
  "wf_seconds d N = list_all (\<lambda>j. integers_range 0 total_seconds (d_raw_seconds d j)) [0..<N]"

subsection \<open>The failure probability as the specification writes it\<close>

text \<open>
  The formula of the specification, on real numbers:
  \<open>p = sigmoid((score - 0.45) / 0.025) * 0.40 + 0.03\<close>, then \<open>p = clip(p, 0.02, 0.90)\<close>,
  with \<open>sigmoid(x) = 1 / (1 + exp(-x))\<close>.
\<close>

definition spec_sigmoid :: "real \<Rightarrow> real" where
  "spec_sigmoid x = 1 / (1 + exp (- x))"

definition spec_clip :: "real \<Rightarrow> real \<Rightarrow> real \<Rightarrow> real" where
  "spec_clip x lo hi = min (max x lo) hi"

definition spec_fail_prob :: "real \<Rightarrow> real" where
  "spec_fail_prob score = spec_clip (spec_sigmoid ((score - 0.45) / 0.025) * 0.40 + 0.03) 0.02 0.90"

subsection \<open>A small batch\<close>

text \<open>
  Four rows, used to run the model: a success, a retryable failure that the retry
  recovers, a retryable failure that it does not, and a failure that is not retryable.
\<close>

definition example_draws :: draws where
  "example_draws =
     \<lparr>d_merchant_cats =
        (\<lambda>i. if i = 0 then Gaming else if i = 1 then Travel
              else if i = 2 then Healthcare else E_commerce),
      d_geos = (\<lambda>i. US),
      d_pay_methods = (\<lambda>i. Credit_Card),
      d_lognormal_z = (\<lambda>i. 0),
      d_raw_seconds = (\<lambda>i. if i = 0 then 0 else if i = 1 then 47433599 else 3600 * int i),
      d_noise_z = (\<lambda>i. 0),
      d_outcome_u = (\<lambda>i. if i = 0 then 0.95 else 0),
      d_retryable_u = (\<lambda>j. if j = 2 then 0.9 else 0.1),
      d_retry_choice = (\<lambda>j. if j = 0 then 3 else 0),
      d_nonretry_choice = (\<lambda>j. 2),
      d_recovery_u = (\<lambda>k. 0.5)\<rparr>"

definition example_rows :: "row list" where
  "example_rows =
     [\<lparr>col_timestamp = 1688169600, col_merchant_category = Gaming, col_geography = US,
       col_currency = ''USD'', col_payment_method = Credit_Card, col_amount_usd = Fin 25,
       col_pre_auth_risk_score = Fin 0, col_status = ''success'',
       col_failure_code = ''success'', col_is_retryable = 0, col_retry_recovered = 0,
       col_is_recoverable = 0, col_hour_of_day = 0, col_day_of_week = 5, col_is_weekend = 1\<rparr>,
      \<lparr>col_timestamp = 1735603199, col_merchant_category = Travel, col_geography = US,
       col_currency = ''USD'', col_payment_method = Credit_Card, col_amount_usd = Fin 420,
       col_pre_auth_risk_score = Fin 1, col_status = ''failed'',
       col_failure_code = ''network_timeout'', col_is_retryable = 1, col_retry_recovered = 1,
       col_is_recoverable = 0, col_hour_of_day = 23, col_day_of_week = 0, col_is_weekend = 0\<rparr>,
      \<lparr>col_timestamp = 1688176800, col_merchant_category = Healthcare, col_geography = US,
       col_currency = ''USD'', col_payment_method = Credit_Card, col_amount_usd = Fin 310,
       col_pre_auth_risk_score = Fin 0.5102, col_status = ''failed'',
       col_failure_code = ''insufficient_funds'', col_is_retryable = 1, col_retry_recovered = 0,
       col_is_recoverable = 1, col_hour_of_day = 2, col_day_of_week = 5, col_is_weekend = 1\<rparr>,
      \<lparr>col_timestamp = 1688180400, col_merchant_category = E_commerce, col_geography = US,
       col_currency = ''USD'', col_payment_method = Credit_Card, col_amount_usd = Fin 85,
       col_pre_auth_risk_score = Fin 0.1769, col_status = ''failed'',
       col_failure_code = ''lost_card'', col_is_retryable = 0, col_retry_recovered = 0,
       col_is_recoverable = 0, col_hour_of_day = 3, col_day_of_week = 5, col_is_weekend = 1\<rparr>]"

subsection \<open>The raw risk of a batch, and a batch without spread\<close>

text \<open>
  The array \<open>raw_risk\<close> of a run, as \<open>generate\<close> computes it. Its products and sums
  are exact here and rounded in float64, so two rows that differ in their category,
  geography or method can have equal raw risk here and differ in the last bit in the
  script. Rows that agree in every draw have the same raw risk in both; the batch without
  spread below is of that kind.
\<close>

definition batch_raw_risk :: "draws \<Rightarrow> nat \<Rightarrow> float64 list" where
  "batch_raw_risk d N =
     raw_risk (merchant_cats d N) (geos d N) (pay_methods d N) (amounts d (merchant_cats d N))"

definition in_unit_interval :: "float64 \<Rightarrow> bool" where
  "in_unit_interval x = (np_less_equal (Fin 0) x \<and> np_less_equal x (Fin 1))"

text \<open>Two rows of the same category, geography, method and amount.\<close>

definition degenerate_draws :: draws where
  "degenerate_draws = example_draws\<lparr>d_merchant_cats := (\<lambda>i. Gaming)\<rparr>"

definition degenerate_rows :: "row list" where
  "degenerate_rows =
     [\<lparr>col_timestamp = 1688169600, col_merchant_category = Gaming, col_geography = US,
       col_currency = ''USD'', col_payment_method = Credit_Card, col_amount_usd = Fin 25,
       col_pre_auth_risk_score = NaN, col_status = ''success'',
       col_failure_code = ''success'', col_is_retryable = 0, col_retry_recovered = 0,
       col_is_recoverable = 0, col_hour_of_day = 0, col_day_of_week = 5, col_is_weekend = 1\<rparr>,
      \<lparr>col_timestamp = 1735603199, col_merchant_category = Gaming, col_geography = US,
       col_currency = ''USD'', col_payment_method = Credit_Card, col_amount_usd = Fin 25,
       col_pre_auth_risk_score = NaN, col_status = ''success'',
       col_failure_code = ''success'', col_is_retryable = 0, col_retry_recovered = 0,
       col_is_recoverable = 0, col_hour_of_day = 23, col_day_of_week = 0, col_is_weekend = 0\<rparr>]"

subsection \<open>The script's row count and the scores of a run\<close>

text \<open>
  \<open>N = 1_000_000\<close> in the script. (\<open>N\<close> names the row count of a run as a variable
  throughout, so the constant is \<open>N_const\<close>.) The seed is not modelled: the draws are the
  input of \<open>generate\<close>.
\<close>

definition N_const :: nat where
  "N_const = 1000000"

text \<open>
  The array \<open>pre_auth_risk_score\<close> of a run, as \<open>generate\<close> computes it before the column
  is rounded; it is the array that \<open>fail_probs\<close> reads.
\<close>

definition run_scores :: "draws \<Rightarrow> nat \<Rightarrow> float64 list" where
  "run_scores d N =
     (case risk_score_base (batch_raw_risk d N) of
        Inl e \<Rightarrow> []
      | Inr base \<Rightarrow> pre_auth_risk_score base (noise d N))"

section \<open>Properties\<close>

subsection \<open>Index assignment and the code tables\<close>

lemma length_put [simp]: "length (put xs idx vals) = length xs"
  by (induction xs idx vals rule: put.induct) simp_all

lemma put_other: "i \<notin> set idx \<Longrightarrow> put xs idx vals ! i = xs ! i"
  by (induction xs idx vals rule: put.induct) auto

lemma put_at:
  "distinct idx \<Longrightarrow> length vals = length idx \<Longrightarrow> \<forall>i \<in> set idx. i < length xs \<Longrightarrow> j < length idx
     \<Longrightarrow> put xs idx vals ! (idx ! j) = vals ! j"
proof (induction xs idx vals arbitrary: j rule: put.induct)
  case (1 xs i idx v vals)
  show ?case
  proof (cases j)
    case 0
    with 1 show ?thesis by (simp add: put_other)
  next
    case (Suc j')
    with 1 show ?thesis by simp
  qed
qed simp_all

lemma distinct_failed_idx [simp]: "distinct (failed_idx failed)"
  by (simp add: failed_idx_def)

lemma set_failed_idx: "set (failed_idx failed) = {i. i < length failed \<and> failed ! i}"
  by (auto simp: failed_idx_def)


lemma RETRY_CODES_eq:
  "RETRY_CODES = [''insufficient_funds'', ''do_not_honor'', ''processing_error'',
                  ''network_timeout'', ''velocity_exceeded'']"
  by (simp add: RETRY_CODES_def FAILURE_CODES_def)

lemma NON_RETRY_CODES_eq:
  "NON_RETRY_CODES = [''card_expired'', ''incorrect_cvc'', ''lost_card'', ''stolen_card'',
                      ''fraud_suspected'', ''currency_not_supported'', ''amount_too_large'']"
  by (simp add: NON_RETRY_CODES_def FAILURE_CODES_def)

lemma astype_U30_short: "length s \<le> 30 \<Longrightarrow> astype_U30 s = s"
  by (simp add: astype_U30_def)

lemma retry_code_short: "c \<in> set RETRY_CODES \<Longrightarrow> length c \<le> 30"
  unfolding RETRY_CODES_eq by (simp, elim disjE; simp)

lemma retry_code_lookup: "c \<in> set RETRY_CODES \<Longrightarrow> lookup_retryable c = Inr True"
  unfolding RETRY_CODES_eq by (simp, elim disjE; simp add: lookup_retryable_def FAILURE_CODES_def)

lemma retry_code_not_success: "c \<in> set RETRY_CODES \<Longrightarrow> c \<noteq> ''success''"
  unfolding RETRY_CODES_eq by (simp, elim disjE; simp)


lemma nonretry_code_short: "c \<in> set NON_RETRY_CODES \<Longrightarrow> length c \<le> 30"
  unfolding NON_RETRY_CODES_eq by (simp, elim disjE; simp)

lemma nonretry_code_lookup: "c \<in> set NON_RETRY_CODES \<Longrightarrow> lookup_retryable c = Inr False"
  unfolding NON_RETRY_CODES_eq by (simp, elim disjE; simp add: lookup_retryable_def FAILURE_CODES_def)

lemma nonretry_code_not_success: "c \<in> set NON_RETRY_CODES \<Longrightarrow> c \<noteq> ''success''"
  unfolding NON_RETRY_CODES_eq by (simp, elim disjE; simp)

lemma length_failed_idx_le: "length (failed_idx failed) \<le> length failed"
  unfolding failed_idx_def by (rule order_trans [OF length_filter_le]) simp

lemma length_assigned_codes [simp]: "length (assigned_codes d n) = n"
  by (simp add: assigned_codes_def)

lemma length_failure_codes [simp]: "length (failure_codes d failed) = length failed"
  by (simp add: failure_codes_def failure_codes_init_def)

lemma failure_codes_success:
  assumes "i < length failed" "\<not> failed ! i"
  shows "failure_codes d failed ! i = ''success''"
proof -
  have "i \<notin> set (failed_idx failed)" using assms by (simp add: set_failed_idx)
  then have "failure_codes d failed ! i = failure_codes_init failed ! i"
    by (simp add: failure_codes_def put_other)
  also have "\<dots> = ''success''" using assms by (simp add: failure_codes_init_def astype_U30_def)
  finally show ?thesis .
qed

lemma failure_codes_failed:
  assumes "j < length (failed_idx failed)"
  shows "failure_codes d failed ! (failed_idx failed ! j)
           = astype_U30 (assigned_codes d (length (failed_idx failed)) ! j)"
proof -
  have "\<forall>i \<in> set (failed_idx failed). i < length (failure_codes_init failed)"
    by (simp add: set_failed_idx failure_codes_init_def)
  then have "failure_codes d failed ! (failed_idx failed ! j)
               = map astype_U30 (assigned_codes d (length (failed_idx failed))) ! j"
    unfolding failure_codes_def using assms by (intro put_at) simp_all
  then show ?thesis using assms by simp
qed

lemma failed_row_position:
  assumes "i < length failed" "failed ! i"
  obtains j where "j < length (failed_idx failed)" "failed_idx failed ! j = i"
proof -
  have "i \<in> set (failed_idx failed)" using assms by (simp add: set_failed_idx)
  then show ?thesis using that by (auto simp: in_set_conv_nth)
qed

lemma failed_idx_nth:
  assumes "j < length (failed_idx failed)"
  shows "failed_idx failed ! j < length failed \<and> failed ! (failed_idx failed ! j)"
proof -
  have "failed_idx failed ! j \<in> set (failed_idx failed)" using assms by simp
  then show ?thesis by (simp add: set_failed_idx)
qed

lemma wf_choicesD:
  "wf_choices d N \<Longrightarrow> j < N \<Longrightarrow>
     RETRY_CODES ! d_retry_choice d j \<in> set RETRY_CODES
     \<and> NON_RETRY_CODES ! d_nonretry_choice d j \<in> set NON_RETRY_CODES"
  by (simp add: wf_choices_def list_all_iff)

lemma assigned_codes_nth:
  assumes "j < n"
  shows "assigned_codes d n ! j =
           (if d_retryable_u d j < 0.60 then RETRY_CODES ! d_retry_choice d j
            else NON_RETRY_CODES ! d_nonretry_choice d j)"
  using assms by (simp add: assigned_codes_def retryable_mask_def retry_assigns_def nonretry_assigns_def)

lemma is_retryable_Inr:
  "is_retryable cs = Inr rs \<Longrightarrow>
     length rs = length cs \<and> (\<forall>i < length cs. lookup_retryable (cs ! i) = Inr (rs ! i))"
proof (induction cs arbitrary: rs)
  case Nil
  then show ?case by simp
next
  case (Cons c cs)
  then obtain r rs' where r: "lookup_retryable c = Inr r" and rs': "is_retryable cs = Inr rs'"
    and eq: "rs = r # rs'"
    by (auto split: sum.splits)
  from Cons.IH [OF rs'] r eq show ?case
    by (auto simp: nth_Cons split: nat.splits)
qed

lemma is_retryable_total:
  "(\<And>c. c \<in> set cs \<Longrightarrow> \<exists>r. lookup_retryable c = Inr r) \<Longrightarrow> \<exists>rs. is_retryable cs = Inr rs"
proof (induction cs)
  case Nil
  then show ?case by simp
next
  case (Cons c cs)
  then obtain r where "lookup_retryable c = Inr r" by force
  moreover obtain rs where "is_retryable cs = Inr rs" using Cons by force
  ultimately show ?case by simp
qed

lemma length_recovery_loop [simp]: "length (recovery_loop d codes rr k idxs) = length rr"
  by (induction idxs arbitrary: rr k) (simp_all add: Let_def)

lemma recovery_loop_True:
  "recovery_loop d codes rr k idxs ! i \<Longrightarrow> i < length rr \<Longrightarrow> rr ! i \<or> i \<in> set idxs"
proof (induction idxs arbitrary: rr k)
  case Nil
  then show ?case by simp
next
  case (Cons idx rest)
  from Cons.prems have "recovery_loop d codes
      (rr[idx := d_recovery_u d k < dict_get RETRY_RECOVERY (codes ! idx) 0.50]) (Suc k) rest ! i"
    by (simp add: Let_def)
  from Cons.IH [OF this] Cons.prems(2) show ?case
    by (cases "i = idx") auto
qed

lemma retryable_failed_idx_mem:
  assumes "i \<in> set (retryable_failed_idx idx msk)"
  obtains j where "j < length idx" "j < length msk" "idx ! j = i" "msk ! j"
proof -
  from assms obtain b where "(i, b) \<in> set (zip idx msk)" "b"
    by (auto simp: retryable_failed_idx_def)
  then show ?thesis using that by (auto simp: in_set_zip)
qed

subsection \<open>The shape of a generated table\<close>

lemma length_dims [simp]:
  "length (merchant_cats d N) = N" "length (geos d N) = N" "length (pay_methods d N) = N"
  by (simp_all add: merchant_cats_def geos_def pay_methods_def)

lemma length_amounts [simp]: "length (amounts d mcs) = length mcs"
  by (simp add: amounts_def amounts_raw_def)

lemma length_raw_risk [simp]:
  "length (raw_risk mcs gs pms ams)
     = min (min (min (length mcs) (length gs)) (length pms)) (length ams)"
  by (simp add: raw_risk_def mc_base_def geo_mult_def pm_mult_def amount_risk_def)

lemma length_risk_score_base: "risk_score_base raw = Inr base \<Longrightarrow> length base = length raw"
  by (auto simp: risk_score_base_def split: sum.splits)

lemma length_noise [simp]: "length (noise d N) = N"
  by (simp add: noise_def)

lemma length_pre_auth_risk_score [simp]:
  "length (pre_auth_risk_score base ns) = min (length base) (length ns)"
  by (simp add: pre_auth_risk_score_def)

lemma length_fail_probs [simp]: "length (fail_probs scores) = length scores"
  by (simp add: fail_probs_def)

lemma length_is_failed [simp]: "length (is_failed d fps) = length fps"
  by (simp add: is_failed_def)

lemma length_retry_recovered [simp]: "length (retry_recovered d failed codes) = length failed"
  by (simp add: retry_recovered_def)

lemma length_is_recoverable [simp]:
  "length (is_recoverable retr recd failed) = min (length retr) (min (length recd) (length failed))"
  by (simp add: is_recoverable_def)

lemma is_recoverable_nth:
  "i < length retr \<Longrightarrow> i < length recd \<Longrightarrow> i < length failed \<Longrightarrow>
     is_recoverable retr recd failed ! i = (retr ! i \<and> \<not> recd ! i \<and> failed ! i)"
  by (simp add: is_recoverable_def)

lemma generate_InrE:
  assumes "generate d N = Inr rows"
  obtains base scores failed codes retr recd where
    "risk_score_base (raw_risk (merchant_cats d N) (geos d N) (pay_methods d N)
        (amounts d (merchant_cats d N))) = Inr base"
    "scores = pre_auth_risk_score base (noise d N)"
    "failed = is_failed d (fail_probs scores)"
    "codes = failure_codes d failed"
    "is_retryable codes = Inr retr"
    "recd = retry_recovered d failed codes"
    "length base = N" "length scores = N" "length failed = N" "length codes = N"
    "length retr = N" "length recd = N"
    "length rows = N"
    "\<And>i. i < N \<Longrightarrow> col_status (rows ! i) = (if failed ! i then ''failed'' else ''success'')"
    "\<And>i. i < N \<Longrightarrow> col_failure_code (rows ! i) = codes ! i"
    "\<And>i. i < N \<Longrightarrow> col_is_retryable (rows ! i) = astype_int (retr ! i)"
    "\<And>i. i < N \<Longrightarrow> col_retry_recovered (rows ! i) = astype_int (recd ! i)"
    "\<And>i. i < N \<Longrightarrow> col_is_recoverable (rows ! i)
        = astype_int (retr ! i \<and> \<not> recd ! i \<and> failed ! i)"
    "\<And>i. i < N \<Longrightarrow> col_pre_auth_risk_score (rows ! i) = np_round (scores ! i) 4"
    "\<And>i. i < N \<Longrightarrow> col_amount_usd (rows ! i) = amounts d (merchant_cats d N) ! i"
    "\<And>i. i < N \<Longrightarrow> col_timestamp (rows ! i) = timestamps (raw_seconds d N) ! i"
    "\<And>i. i < N \<Longrightarrow> col_merchant_category (rows ! i) = merchant_cats d N ! i"
proof -
  from assms obtain base where
    b: "risk_score_base (raw_risk (merchant_cats d N) (geos d N) (pay_methods d N)
        (amounts d (merchant_cats d N))) = Inr base"
    by (auto simp: generate_def Let_def split: sum.splits)
  define scores where "scores = pre_auth_risk_score base (noise d N)"
  define failed where "failed = is_failed d (fail_probs scores)"
  define codes where "codes = failure_codes d failed"
  from assms b obtain retr where r: "is_retryable codes = Inr retr"
    by (auto simp: generate_def Let_def scores_def failed_def codes_def split: sum.splits)
  define recd where "recd = retry_recovered d failed codes"
  have lb: "length base = N" using length_risk_score_base [OF b] by simp
  have ls: "length scores = N" by (simp add: scores_def lb)
  have lf: "length failed = N" by (simp add: failed_def ls)
  have lc: "length codes = N" by (simp add: codes_def lf)
  have lr: "length retr = N" using is_retryable_Inr [OF r] lc by simp
  have lrec: "length recd = N" by (simp add: recd_def lf)
  have rows: "rows = map (\<lambda>i.
      \<lparr>col_timestamp = timestamps (raw_seconds d N) ! i,
       col_merchant_category = merchant_cats d N ! i,
       col_geography = geos d N ! i,
       col_currency = currency (GEOGRAPHIES (geos d N ! i)),
       col_payment_method = pay_methods d N ! i,
       col_amount_usd = amounts d (merchant_cats d N) ! i,
       col_pre_auth_risk_score = np_round (scores ! i) 4,
       col_status = (if failed ! i then ''failed'' else ''success''),
       col_failure_code = codes ! i,
       col_is_retryable = astype_int (retr ! i),
       col_retry_recovered = astype_int (recd ! i),
       col_is_recoverable = astype_int (is_recoverable retr recd failed ! i),
       col_hour_of_day = hours (timestamps (raw_seconds d N)) ! i,
       col_day_of_week = dow (timestamps (raw_seconds d N)) ! i,
       col_is_weekend = astype_int (weekend (dow (timestamps (raw_seconds d N))) ! i)\<rparr>) [0..<N]"
    using assms b r
    by (simp add: generate_def Let_def scores_def failed_def codes_def recd_def)
  show ?thesis
  proof (rule that [of base scores failed codes retr recd])
    fix i assume "i < N"
    then show "col_is_recoverable (rows ! i) = astype_int (retr ! i \<and> \<not> recd ! i \<and> failed ! i)"
      by (simp add: rows is_recoverable_nth lr lrec lf)
  qed (fact b scores_def failed_def codes_def r recd_def lb ls lf lc lr lrec | simp add: rows)+
qed

subsection \<open>Codes of failed rows\<close>

lemma failed_code_assigned:
  assumes wf: "wf_choices d N" and len: "length failed \<le> N"
    and j: "j < length (failed_idx failed)"
  shows "failure_codes d failed ! (failed_idx failed ! j)
           = (if d_retryable_u d j < 0.60 then RETRY_CODES ! d_retry_choice d j
              else NON_RETRY_CODES ! d_nonretry_choice d j)"
    and "d_retryable_u d j < 0.60 \<Longrightarrow>
           failure_codes d failed ! (failed_idx failed ! j) \<in> set RETRY_CODES"
    and "\<not> d_retryable_u d j < 0.60 \<Longrightarrow>
           failure_codes d failed ! (failed_idx failed ! j) \<in> set NON_RETRY_CODES"
proof -
  have "j < N" using j len length_failed_idx_le [of failed] by linarith
  note mem = wf_choicesD [OF wf this]
  let ?c = "if d_retryable_u d j < 0.60 then RETRY_CODES ! d_retry_choice d j
            else NON_RETRY_CODES ! d_nonretry_choice d j"
  have "length ?c \<le> 30" using mem retry_code_short nonretry_code_short by auto
  then have "astype_U30 ?c = ?c" by (rule astype_U30_short)
  then show eq: "failure_codes d failed ! (failed_idx failed ! j) = ?c"
    using failure_codes_failed [OF j, of d] assigned_codes_nth [OF j, of d] by simp
  show "d_retryable_u d j < 0.60 \<Longrightarrow>
           failure_codes d failed ! (failed_idx failed ! j) \<in> set RETRY_CODES"
    using eq mem by simp
  show "\<not> d_retryable_u d j < 0.60 \<Longrightarrow>
           failure_codes d failed ! (failed_idx failed ! j) \<in> set NON_RETRY_CODES"
    using eq mem by simp
qed

lemma failed_code_in_tables:
  assumes "wf_choices d N" "length failed \<le> N" "i < length failed" "failed ! i"
  shows "failure_codes d failed ! i \<in> set RETRY_CODES \<union> set NON_RETRY_CODES"
proof -
  from assms(3,4) obtain j where j: "j < length (failed_idx failed)" "failed_idx failed ! j = i"
    by (rule failed_row_position)
  show ?thesis
    using failed_code_assigned(2,3) [OF assms(1,2) j(1)] j(2) by (cases "d_retryable_u d j < 0.60") auto
qed

lemma table_keys: "set RETRY_CODES \<union> set NON_RETRY_CODES = set (map fst FAILURE_CODES)"
  unfolding RETRY_CODES_def NON_RETRY_CODES_def by auto

lemma map_of_retry:
  "map_of xs c = Some (True, ds) \<Longrightarrow> c \<in> set (map fst (filter (\<lambda>(c, r, _). r) xs))"
  by (induction xs) (auto split: if_splits)

lemma lookup_retryable_True: "lookup_retryable c = Inr True \<longleftrightarrow> c \<in> set RETRY_CODES"
proof
  assume "lookup_retryable c = Inr True"
  then obtain ds where "map_of FAILURE_CODES c = Some (True, ds)"
    by (auto simp: lookup_retryable_def split: if_splits option.splits)
  then show "c \<in> set RETRY_CODES" unfolding RETRY_CODES_def by (rule map_of_retry)
qed (rule retry_code_lookup)

lemma code_table_total:
  assumes "c = ''success'' \<or> c \<in> set RETRY_CODES \<union> set NON_RETRY_CODES"
  shows "\<exists>r. lookup_retryable c = Inr r"
proof -
  consider "c = ''success''" | "c \<in> set RETRY_CODES" | "c \<in> set NON_RETRY_CODES"
    using assms by blast
  then show ?thesis
  proof cases
    case 1
    then have "lookup_retryable c = Inr False" by (simp add: lookup_retryable_def)
    then show ?thesis by blast
  next
    case 2
    then show ?thesis using retry_code_lookup by blast
  next
    case 3
    then show ?thesis using nonretry_code_lookup by blast
  qed
qed

lemma in_set_rowsE:
  assumes "r \<in> set rows" "length rows = N"
  obtains i where "i < N" "r = rows ! i"
  using assms by (auto simp: in_set_conv_nth)

subsection \<open>When the run returns a table\<close>

lemma amin_Inr: "xs \<noteq> [] \<Longrightarrow> \<exists>m. amin xs = Inr m"
  by (cases xs) (simp_all add: amin_def)

lemma amax_Inr: "xs \<noteq> [] \<Longrightarrow> \<exists>m. amax xs = Inr m"
  by (cases xs) (simp_all add: amax_def)

lemma risk_score_base_Inr: "raw \<noteq> [] \<Longrightarrow> \<exists>base. risk_score_base raw = Inr base"
  using amin_Inr [of raw] amax_Inr [of raw] by (auto simp: risk_score_base_def)

lemma risk_score_base_Nil: "risk_score_base [] = Inl ValueError"
  by (simp add: risk_score_base_def amin_def)

lemma generate_empty: "generate d 0 = Inl ValueError"
  by (simp add: generate_def Let_def raw_risk_def mc_base_def merchant_cats_def
      risk_score_base_Nil)

lemma generate_total:
  assumes wf: "wf_choices d N" and N: "0 < N"
  shows "\<exists>rows. generate d N = Inr rows"
proof -
  let ?raw = "raw_risk (merchant_cats d N) (geos d N) (pay_methods d N)
                (amounts d (merchant_cats d N))"
  have len: "length ?raw = N" by simp
  have "?raw \<noteq> []"
  proof
    assume e: "?raw = []"
    have "length ?raw = 0" unfolding e by simp
    with len N show False by linarith
  qed
  then obtain base where b: "risk_score_base ?raw = Inr base"
    using risk_score_base_Inr by blast
  let ?failed = "is_failed d (fail_probs (pre_auth_risk_score base (noise d N)))"
  have lf: "length ?failed = N" using length_risk_score_base [OF b] by simp
  have "\<exists>r. lookup_retryable c = Inr r" if "c \<in> set (failure_codes d ?failed)" for c
  proof -
    from that obtain i where i: "i < N" "c = failure_codes d ?failed ! i"
      using lf by (auto simp: in_set_conv_nth)
    show ?thesis
    proof (cases "?failed ! i")
      case True
      then have "c \<in> set RETRY_CODES \<union> set NON_RETRY_CODES"
        using failed_code_in_tables [OF wf, of ?failed i] i lf by simp
      then show ?thesis by (intro code_table_total) simp
    next
      case False
      then have "c = ''success''" using failure_codes_success [of i ?failed d] i lf by simp
      then show ?thesis by (intro code_table_total) simp
    qed
  qed
  then obtain retr where "is_retryable (failure_codes d ?failed) = Inr retr"
    using is_retryable_total by blast
  with b show ?thesis by (simp add: generate_def Let_def)
qed

subsection \<open>The small batch, evaluated\<close>

lemma np_clip_Fin: "np_clip (Fin a) (Fin lo) (Fin hi) = Fin (min (max a lo) hi)"
  by (simp add: np_clip_def np_maximum_def np_minimum_def min_def max_def)

lemma sigmoid_Fin: "sigmoid (Fin x) = Fin (1 / (1 + exp (- x)))"
proof -
  have "1 + exp (- x) \<noteq> 0" using exp_gt_zero [of "- x"] by linarith
  then show ?thesis by (simp add: sigmoid_def)
qed

lemma upt4: "[0..<4] = [0, 1, 2, Suc 2]"
  by (simp add: upt_rec)

lemma ex_mcs: "merchant_cats example_draws 4 = [Gaming, Travel, Healthcare, E_commerce]"
  by (simp add: merchant_cats_def example_draws_def upt4)

lemma ex_geos: "geos example_draws 4 = [US, US, US, US]"
  by (simp add: geos_def example_draws_def upt4)

lemma ex_pms: "pay_methods example_draws 4 = [Credit_Card, Credit_Card, Credit_Card, Credit_Card]"
  by (simp add: pay_methods_def example_draws_def upt4)

lemma ex_amounts:
  "amounts example_draws [Gaming, Travel, Healthcare, E_commerce]
     = [Fin 25, Fin 420, Fin 310, Fin 85]"
  by (simp add: amounts_def amounts_raw_def example_draws_def lognormal_def py_max_def rint_def Let_def)

lemma ex_raw:
  "raw_risk [Gaming, Travel, Healthcare, E_commerce] [US, US, US, US]
     [Credit_Card, Credit_Card, Credit_Card, Credit_Card] [Fin 25, Fin 420, Fin 310, Fin 85]
   = [Fin (9 / 100), Fin (237 / 1000), Fin (33 / 200), Fin (29 / 250)]"
  by (simp add: raw_risk_def mc_base_def geo_mult_def pm_mult_def amount_risk_def
      np_subtract_def np_clip_Fin)

lemma ex_base:
  "risk_score_base [Fin (9 / 100), Fin (237 / 1000), Fin (33 / 200), Fin (29 / 250)]
   = Inr [Fin 0, Fin 1, Fin (25 / 49), Fin (26 / 147)]"
  by (simp add: risk_score_base_def amin_def amax_def np_minimum_def np_maximum_def
      np_subtract_def)

lemma ex_noise: "noise example_draws 4 = [Fin 0, Fin 0, Fin 0, Fin 0]"
  by (simp add: noise_def normal_def example_draws_def upt4)

lemma ex_scores:
  "pre_auth_risk_score [Fin 0, Fin 1, Fin (25 / 49), Fin (26 / 147)] [Fin 0, Fin 0, Fin 0, Fin 0]
   = [Fin 0, Fin 1, Fin (25 / 49), Fin (26 / 147)]"
  by (simp add: pre_auth_risk_score_def np_clip_Fin)

lemma ex_failed:
  "is_failed example_draws (fail_probs [Fin 0, Fin 1, Fin (25 / 49), Fin (26 / 147)])
   = [False, True, True, True]"
  by (simp add: is_failed_def fail_probs_def fail_prob_def Let_def np_subtract_def THRESHOLD_def
      SIGMA_const_def sigmoid_Fin np_clip_Fin example_draws_def less_max_iff_disj)

lemma ex_ts:
  "timestamps (raw_seconds example_draws 4) = [1688169600, 1735603199, 1688176800, 1688180400]"
  by (simp add: timestamps_def raw_seconds_def example_draws_def upt4 start_ts_def Timestamp_def
      days_from_civil_def)

lemma ex_failed_idx: "failed_idx [False, True, True, True] = [1, 2, Suc 2]"
  by (simp add: failed_idx_def upt4)

lemma upt3: "[0..<3] = [0, 1, 2]"
  by (simp add: upt_rec)

lemma ex_assigned:
  "assigned_codes example_draws (Suc (Suc (Suc 0)))
     = [''network_timeout'', ''insufficient_funds'', ''lost_card'']"
  by (simp add: assigned_codes_def retryable_mask_def retry_assigns_def nonretry_assigns_def
      example_draws_def RETRY_CODES_eq NON_RETRY_CODES_eq)

lemma ex_codes:
  "failure_codes example_draws [False, True, True, True]
     = [''success'', ''network_timeout'', ''insufficient_funds'', ''lost_card'']"
  by (simp add: failure_codes_def ex_failed_idx ex_assigned failure_codes_init_def astype_U30_def)

lemma ex_retr:
  "is_retryable [''success'', ''network_timeout'', ''insufficient_funds'', ''lost_card'']
     = Inr [False, True, True, False]"
  by (simp add: lookup_retryable_def FAILURE_CODES_def)

lemma ex_recd:
  "retry_recovered example_draws [False, True, True, True]
     [''success'', ''network_timeout'', ''insufficient_funds'', ''lost_card'']
   = [False, True, False, False]"
  by (simp add: retry_recovered_def ex_failed_idx retryable_mask_def upt3 retryable_failed_idx_def
      example_draws_def dict_get_def RETRY_RECOVERY_def)


lemma example_generate: "generate example_draws 4 = Inr example_rows"
  unfolding generate_def Let_def ex_mcs ex_geos ex_pms ex_amounts ex_raw ex_base sum.case
    ex_noise ex_scores ex_failed ex_codes ex_retr ex_recd ex_ts
  by (simp add: hours_def dow_def weekend_def day_of_def is_recoverable_def astype_int_def
      rint_def upt4 example_rows_def)

lemma example_wf_choices: "wf_choices example_draws 4"
  by (simp add: wf_choices_def upt4 example_draws_def RETRY_CODES_eq NON_RETRY_CODES_eq)

lemma example_wf_seconds: "wf_seconds example_draws 4"
  by (simp add: wf_seconds_def upt4 example_draws_def integers_range_def total_seconds_def
      end_ts_def start_ts_def Timestamp_def days_from_civil_def)

subsection \<open>Failure codes and recovery flags\<close>

text \<open>
  Claim C1. In every row of a generated table the failure code is \<open>success\<close> exactly when
  the status is \<open>success\<close>, and the status is \<open>failed\<close> exactly when the failure code is
  not \<open>success\<close>.
\<close>

theorem failure_code_success_iff_status:
  assumes wf: "wf_choices d N" and gen: "generate d N = Inr rows" and r: "r \<in> set rows"
  shows "(col_failure_code r = ''success'') = (col_status r = ''success'')
         \<and> (col_status r = ''failed'') = (col_failure_code r \<noteq> ''success'')"
proof -
  from gen obtain failed codes where
    codes: "codes = failure_codes d failed"
    and len: "length failed = N" "length rows = N"
    and status: "\<And>i. i < N \<Longrightarrow> col_status (rows ! i) = (if failed ! i then ''failed'' else ''success'')"
    and code: "\<And>i. i < N \<Longrightarrow> col_failure_code (rows ! i) = codes ! i"
    by (rule generate_InrE) blast
  from r len(2) obtain i where i: "i < N" "r = rows ! i" by (rule in_set_rowsE)
  show ?thesis
  proof (cases "failed ! i")
    case True
    then have "codes ! i \<in> set RETRY_CODES \<union> set NON_RETRY_CODES"
      unfolding codes using failed_code_in_tables [OF wf, of failed i] i len by simp
    then have "codes ! i \<noteq> ''success''"
      using retry_code_not_success nonretry_code_not_success by blast
    then show ?thesis using True i status [OF i(1)] code [OF i(1)] by simp
  next
    case False
    then have "codes ! i = ''success''"
      unfolding codes using failure_codes_success [of i failed d] i len by simp
    then show ?thesis using False i status [OF i(1)] code [OF i(1)] by simp
  qed
qed

theorem failure_code_success_iff_status_witness:
  "wf_choices example_draws 4 \<and> generate example_draws 4 = Inr example_rows
   \<and> example_rows ! 1 \<in> set example_rows
   \<and> (col_failure_code (example_rows ! 1) = ''success'')
       = (col_status (example_rows ! 1) = ''success'')
   \<and> (col_status (example_rows ! 1) = ''failed'')
       = (col_failure_code (example_rows ! 1) \<noteq> ''success'')"
proof -
  have m: "example_rows ! 1 \<in> set example_rows" by (simp add: example_rows_def)
  show ?thesis
    using example_wf_choices example_generate m
      failure_code_success_iff_status [OF example_wf_choices example_generate m]
    by blast
qed

text \<open>
  Claim C2. In every row of a generated table \<open>is_retryable\<close> is the flag that
  \<open>FAILURE_CODES\<close> holds for the row's failure code, and false for \<open>success\<close>: it is a
  function of the failure code alone, and it is set exactly at the rows whose code is one
  of \<open>RETRY_CODES\<close>.
\<close>

theorem is_retryable_is_table_lookup:
  assumes gen: "generate d N = Inr rows" and r: "r \<in> set rows"
  shows "lookup_retryable (col_failure_code r) = Inr (col_is_retryable r = 1)
         \<and> (col_is_retryable r = 1 \<or> col_is_retryable r = 0)
         \<and> (col_is_retryable r = 1) = (col_failure_code r \<in> set RETRY_CODES)
         \<and> (col_failure_code r = ''success'' \<longrightarrow> col_is_retryable r = 0)"
proof -
  from gen obtain codes retr where
    retr: "is_retryable codes = Inr retr"
    and len: "length codes = N" "length rows = N"
    and code: "\<And>i. i < N \<Longrightarrow> col_failure_code (rows ! i) = codes ! i"
    and flag: "\<And>i. i < N \<Longrightarrow> col_is_retryable (rows ! i) = astype_int (retr ! i)"
    by (rule generate_InrE) blast
  from r len(2) obtain i where i: "i < N" "r = rows ! i" by (rule in_set_rowsE)
  have lk: "lookup_retryable (codes ! i) = Inr (retr ! i)"
    using is_retryable_Inr [OF retr] i len by simp
  have eq: "(col_is_retryable r = 1) = retr ! i" "col_is_retryable r = 1 \<or> col_is_retryable r = 0"
    using flag [OF i(1)] i by (simp_all add: astype_int_def)
  have c: "col_failure_code r = codes ! i" using code [OF i(1)] i by simp
  have 1: "lookup_retryable (col_failure_code r) = Inr (col_is_retryable r = 1)"
    using lk eq c by simp
  have 2: "(col_is_retryable r = 1) = (col_failure_code r \<in> set RETRY_CODES)"
    using 1 lookup_retryable_True [of "col_failure_code r"] by auto
  have 3: "col_failure_code r = ''success'' \<longrightarrow> col_is_retryable r = 0"
    using 2 retry_code_not_success eq(2) by blast
  from 1 eq(2) 2 3 show ?thesis by blast
qed

theorem is_retryable_is_table_lookup_witness:
  "generate example_draws 4 = Inr example_rows
   \<and> example_rows ! 0 \<in> set example_rows
   \<and> col_failure_code (example_rows ! 0) = ''success''
   \<and> lookup_retryable (col_failure_code (example_rows ! 0))
       = Inr (col_is_retryable (example_rows ! 0) = 1)
   \<and> (col_is_retryable (example_rows ! 0) = 1)
       = (col_failure_code (example_rows ! 0) \<in> set RETRY_CODES)
   \<and> col_is_retryable (example_rows ! 0) = 0"
proof -
  have m: "example_rows ! 0 \<in> set example_rows" by (simp add: example_rows_def)
  have c: "col_failure_code (example_rows ! 0) = ''success''" by (simp add: example_rows_def)
  show ?thesis
    using example_generate m c is_retryable_is_table_lookup [OF example_generate m]
    by blast
qed

text \<open>
  Claim C3. In every row of a generated table, \<open>retry_recovered\<close> set implies
  \<open>is_retryable\<close> set and status \<open>failed\<close>; \<open>is_recoverable\<close> set implies
  \<open>is_retryable\<close> set, \<open>retry_recovered\<close> clear and status \<open>failed\<close>.
\<close>

theorem recovery_flags_consistent:
  assumes wf: "wf_choices d N" and gen: "generate d N = Inr rows" and r: "r \<in> set rows"
  shows "(col_retry_recovered r = 1 \<longrightarrow> col_is_retryable r = 1 \<and> col_status r = ''failed'')
         \<and> (col_is_recoverable r = 1 \<longrightarrow>
               col_is_retryable r = 1 \<and> col_retry_recovered r = 0 \<and> col_status r = ''failed'')"
proof -
  from gen obtain failed codes retr recd where
    codes: "codes = failure_codes d failed"
    and retr: "is_retryable codes = Inr retr"
    and recd: "recd = retry_recovered d failed codes"
    and len: "length failed = N" "length codes = N" "length rows = N"
    and status: "\<And>i. i < N \<Longrightarrow> col_status (rows ! i) = (if failed ! i then ''failed'' else ''success'')"
    and c_retr: "\<And>i. i < N \<Longrightarrow> col_is_retryable (rows ! i) = astype_int (retr ! i)"
    and c_recd: "\<And>i. i < N \<Longrightarrow> col_retry_recovered (rows ! i) = astype_int (recd ! i)"
    and c_recov: "\<And>i. i < N \<Longrightarrow> col_is_recoverable (rows ! i)
        = astype_int (retr ! i \<and> \<not> recd ! i \<and> failed ! i)"
    by (rule generate_InrE) blast
  from r len(3) obtain i where i: "i < N" "r = rows ! i" by (rule in_set_rowsE)
  have lk: "lookup_retryable (codes ! i) = Inr (retr ! i)"
    using is_retryable_Inr [OF retr] i len by simp
  have rec: "retr ! i \<and> failed ! i" if "recd ! i"
  proof -
    let ?fi = "failed_idx failed"
    let ?msk = "retryable_mask d (length ?fi)"
    from that have "recovery_loop d codes (replicate (length failed) False) 0
                      (retryable_failed_idx ?fi ?msk) ! i"
      by (simp add: recd retry_recovered_def)
    from recovery_loop_True [OF this] i len
    have "i \<in> set (retryable_failed_idx ?fi ?msk)" by simp
    then obtain j where j: "j < length ?fi" "?fi ! j = i" "?msk ! j"
      by (rule retryable_failed_idx_mem)
    from j(1,3) have u: "d_retryable_u d j < 0.60" by (simp add: retryable_mask_def)
    have "codes ! i \<in> set RETRY_CODES"
      using failed_code_assigned(2) [OF wf _ j(1) u] len j(2) codes by simp
    then have "lookup_retryable (codes ! i) = Inr True" by (rule retry_code_lookup)
    with lk have "retr ! i" by simp
    moreover have "failed ! i" using failed_idx_nth [OF j(1)] j(2) by simp
    ultimately show ?thesis ..
  qed
  show ?thesis
    using rec status [OF i(1)] c_retr [OF i(1)] c_recd [OF i(1)] c_recov [OF i(1)] i(2)
    by (auto simp: astype_int_def split: if_splits)
qed

theorem recovery_flags_consistent_witness:
  "wf_choices example_draws 4 \<and> generate example_draws 4 = Inr example_rows
   \<and> example_rows ! 2 \<in> set example_rows
   \<and> col_is_recoverable (example_rows ! 2) = 1
   \<and> col_is_retryable (example_rows ! 2) = 1 \<and> col_retry_recovered (example_rows ! 2) = 0
   \<and> col_status (example_rows ! 2) = ''failed''"
proof -
  have m: "example_rows ! 2 \<in> set example_rows" by (simp add: example_rows_def)
  have c: "col_is_recoverable (example_rows ! 2) = 1" by (simp add: example_rows_def)
  show ?thesis
    using example_wf_choices example_generate m c
      recovery_flags_consistent [OF example_wf_choices example_generate m]
    by blast
qed

text \<open>
  Claim C10. In every row of a generated table the failure code is \<open>success\<close> or one of the
  12 keys of \<open>FAILURE_CODES\<close>; the placeholder \<open>pending_code\<close>, written at the failed rows
  before the codes are assigned, is overwritten at every one of them.
\<close>

theorem failure_code_in_table:
  assumes wf: "wf_choices d N" and gen: "generate d N = Inr rows" and r: "r \<in> set rows"
  shows "(col_failure_code r = ''success'' \<or> col_failure_code r \<in> set (map fst FAILURE_CODES))
         \<and> col_failure_code r \<noteq> ''pending_code''
         \<and> length (map fst FAILURE_CODES) = 12"
proof -
  from gen obtain failed codes where
    codes: "codes = failure_codes d failed"
    and len: "length failed = N" "length rows = N"
    and code: "\<And>i. i < N \<Longrightarrow> col_failure_code (rows ! i) = codes ! i"
    by (rule generate_InrE) blast
  from r len(2) obtain i where i: "i < N" "r = rows ! i" by (rule in_set_rowsE)
  have pending: "''pending_code'' \<notin> set (map fst FAILURE_CODES)"
    by (simp add: FAILURE_CODES_def)
  have "codes ! i = ''success'' \<or> codes ! i \<in> set (map fst FAILURE_CODES)"
  proof (cases "failed ! i")
    case True
    then have "codes ! i \<in> set RETRY_CODES \<union> set NON_RETRY_CODES"
      unfolding codes using failed_code_in_tables [OF wf, of failed i] i len by simp
    then show ?thesis unfolding table_keys by blast
  next
    case False
    then show ?thesis
      unfolding codes using failure_codes_success [of i failed d] i len by simp
  qed
  moreover have "''success'' \<noteq> ''pending_code''" by simp
  moreover have "length (map fst FAILURE_CODES) = 12" by (simp add: FAILURE_CODES_def)
  ultimately show ?thesis using pending i code [OF i(1)] by metis
qed

theorem failure_code_in_table_witness:
  "wf_choices example_draws 4 \<and> generate example_draws 4 = Inr example_rows
   \<and> example_rows ! 2 \<in> set example_rows
   \<and> (col_failure_code (example_rows ! 2) = ''success''
        \<or> col_failure_code (example_rows ! 2) \<in> set (map fst FAILURE_CODES))
   \<and> col_failure_code (example_rows ! 2) \<noteq> ''pending_code''"
proof -
  have m: "example_rows ! 2 \<in> set example_rows" by (simp add: example_rows_def)
  show ?thesis
    using example_wf_choices example_generate m
      failure_code_in_table [OF example_wf_choices example_generate m]
    by blast
qed

subsection \<open>Amounts and the failure probability\<close>

lemma rint_ge: "of_int m \<le> x \<Longrightarrow> m \<le> rint x"
proof -
  assume "of_int m \<le> x"
  then have "m \<le> \<lfloor>x\<rfloor>" by (simp add: le_floor_iff)
  then show ?thesis by (auto simp: rint_def Let_def)
qed

lemma rint_le: "x \<le> of_int m \<Longrightarrow> rint x \<le> m"
proof (cases "x = of_int m")
  case True
  then show ?thesis by (simp add: rint_def Let_def)
next
  case False
  assume "x \<le> of_int m"
  with False have "x < of_int m" by simp
  then have "\<lfloor>x\<rfloor> < m" by (simp add: floor_less_iff)
  then show ?thesis by (auto simp: rint_def Let_def)
qed

lemma py_max_Fin: "py_max (Fin a) (Fin b) = Fin (max a b)"
  by (simp add: py_max_def max_def)

lemma avg_amount_pos: "0 < avg_amount (MERCHANT_CATEGORIES mc)"
  by (cases mc) simp_all

lemma lognormal_Fin: "lognormal (Fin m) (Fin sg) z = Fin (exp (m + sg * z))"
  by (simp add: lognormal_def)

lemma np_less_equal_Fin: "np_less_equal (Fin a) (Fin b) = (a \<le> b)"
  by (auto simp: np_less_equal_def)

lemma amounts_nth:
  assumes "i < length mcs"
  shows "amounts d mcs ! i =
           Fin (of_int (rint (max 1 (exp (ln (avg_amount (MERCHANT_CATEGORIES (mcs ! i)))
                                          + 0.7 * d_lognormal_z d i)) * 10 ^ 2)) / 10 ^ 2)"
  using assms
  by (simp add: amounts_def amounts_raw_def nth_enumerate_eq lognormal_Fin avg_amount_pos py_max_Fin)

lemma fail_prob_Fin: "fail_prob (Fin s) = Fin (spec_fail_prob s)"
  by (simp add: fail_prob_def Let_def np_subtract_def THRESHOLD_def SIGMA_const_def
      sigmoid_Fin np_clip_Fin spec_fail_prob_def spec_clip_def spec_sigmoid_def)

text \<open>
  Claim C6. The amount of row \<open>i\<close> is the log-normal draw of the row
  (\<open>exp(ln(avg_amount) + 0.7 z)\<close> for the row's category and its standard normal draw
  \<open>z\<close>), floored at 1.0 and rounded to 2 decimal places; it is at least 1.0, so strictly
  positive.
\<close>

theorem amount_usd_floor_and_round:
  assumes gen: "generate d N = Inr rows" and i: "i < N"
  shows "col_amount_usd (rows ! i) =
           Fin (of_int (rint (max 1 (exp (ln (avg_amount (MERCHANT_CATEGORIES
                                                  (col_merchant_category (rows ! i))))
                                          + 0.7 * d_lognormal_z d i)) * 10 ^ 2)) / 10 ^ 2)
         \<and> np_less_equal (Fin 1) (col_amount_usd (rows ! i))
         \<and> np_less (Fin 0) (col_amount_usd (rows ! i))"
proof -
  from gen have am: "col_amount_usd (rows ! i) = amounts d (merchant_cats d N) ! i"
    and mc: "col_merchant_category (rows ! i) = merchant_cats d N ! i"
    using i by (auto elim: generate_InrE)
  let ?x = "max 1 (exp (ln (avg_amount (MERCHANT_CATEGORIES (merchant_cats d N ! i)))
                         + 0.7 * d_lognormal_z d i)) * 10 ^ 2"
  define v :: real where "v = of_int (rint ?x) / 10 ^ 2"
  have eq: "col_amount_usd (rows ! i) = Fin v"
    unfolding v_def using amounts_nth [of i "merchant_cats d N" d] i am by simp
  have "of_int 100 \<le> ?x" by simp
  then have "100 \<le> rint ?x" by (rule rint_ge)
  then have v1: "1 \<le> v" unfolding v_def by simp
  have "col_amount_usd (rows ! i) =
           Fin (of_int (rint (max 1 (exp (ln (avg_amount (MERCHANT_CATEGORIES
                                                  (col_merchant_category (rows ! i))))
                                          + 0.7 * d_lognormal_z d i)) * 10 ^ 2)) / 10 ^ 2)"
    unfolding mc eq v_def ..
  moreover have "np_less_equal (Fin 1) (col_amount_usd (rows ! i))"
    unfolding eq np_less_equal_Fin by (rule v1)
  moreover have "np_less (Fin 0) (col_amount_usd (rows ! i))"
    unfolding eq using v1 by simp
  ultimately show ?thesis by blast
qed

theorem amount_usd_floor_and_round_witness:
  "generate example_draws 4 = Inr example_rows \<and> (0::nat) < 4
   \<and> col_amount_usd (example_rows ! 0) = Fin 25
   \<and> np_less_equal (Fin 1) (col_amount_usd (example_rows ! 0))
   \<and> np_less (Fin 0) (col_amount_usd (example_rows ! 0))"
proof -
  have i: "(0::nat) < 4" by simp
  have a: "col_amount_usd (example_rows ! 0) = Fin 25" by (simp add: example_rows_def)
  show ?thesis
    using example_generate i a amount_usd_floor_and_round [OF example_generate i]
    by blast
qed

subsection \<open>The window of the timestamps\<close>

lemma start_ts_eq: "start_ts = 1688169600"
  by (simp add: start_ts_def Timestamp_def days_from_civil_def)

lemma end_ts_eq: "end_ts = 1735603200"
  by (simp add: end_ts_def Timestamp_def days_from_civil_def)

lemma total_seconds_eq: "total_seconds = 549 * 86400"
  by (simp add: total_seconds_def start_ts_eq end_ts_eq)

lemma window_days:
  "days_from_civil 2023 7 1 = 19539" "days_from_civil 2024 12 30 = 20087"
  "days_from_civil 2024 12 31 = 20088"
  by (simp_all add: days_from_civil_def)

lemma wf_secondsD: "wf_seconds d N \<Longrightarrow> i < N \<Longrightarrow> integers_range 0 total_seconds (d_raw_seconds d i)"
  by (simp add: wf_seconds_def list_all_iff)

lemma timestamps_nth:
  "i < N \<Longrightarrow> timestamps (raw_seconds d N) ! i = start_ts + d_raw_seconds d i"
  by (simp add: timestamps_def raw_seconds_def)

lemma offset_day_bounds:
  assumes "integers_range 0 total_seconds k"
  shows "19539 \<le> day_of (start_ts + k)" "day_of (start_ts + k) \<le> 20087"
  using assms unfolding integers_range_def total_seconds_eq start_ts_eq day_of_def by arith+

text \<open>
  Claim C7, as amended. Every timestamp is the window start plus an integer number of
  seconds drawn from \<open>[0, total_seconds)\<close>, where \<open>total_seconds\<close> is the time from
  2023-07-01 00:00:00 to 2024-12-31 00:00:00. So it lies in the half-open window from the
  start (included) to the midnight that begins 2024-12-31 (excluded), and its date is between
  2023-07-01 and 2024-12-30.
\<close>

theorem timestamps_in_half_open_window:
  assumes wf: "wf_seconds d N" and gen: "generate d N = Inr rows" and r: "r \<in> set rows"
  shows "(\<exists>k. integers_range 0 total_seconds k \<and> col_timestamp r = start_ts + k)
         \<and> start_ts \<le> col_timestamp r \<and> col_timestamp r < end_ts
         \<and> days_from_civil 2023 7 1 \<le> day_of (col_timestamp r)
         \<and> day_of (col_timestamp r) \<le> days_from_civil 2024 12 30"
proof -
  from gen have len: "length rows = N"
    and ts: "\<And>i. i < N \<Longrightarrow> col_timestamp (rows ! i) = timestamps (raw_seconds d N) ! i"
    by (auto elim: generate_InrE)
  from r len obtain i where i: "i < N" "r = rows ! i" by (rule in_set_rowsE)
  let ?k = "d_raw_seconds d i"
  have k: "integers_range 0 total_seconds ?k" using wf i(1) by (rule wf_secondsD)
  have eq: "col_timestamp r = start_ts + ?k" using ts [OF i(1)] i timestamps_nth by simp
  have "start_ts \<le> col_timestamp r" "col_timestamp r < end_ts"
    using k unfolding eq integers_range_def total_seconds_def by simp_all
  moreover have "days_from_civil 2023 7 1 \<le> day_of (col_timestamp r)"
    "day_of (col_timestamp r) \<le> days_from_civil 2024 12 30"
    unfolding eq window_days using offset_day_bounds [OF k] by simp_all
  ultimately show ?thesis using k eq by blast
qed

theorem timestamps_in_half_open_window_witness:
  "wf_seconds example_draws 4 \<and> generate example_draws 4 = Inr example_rows
   \<and> example_rows ! 1 \<in> set example_rows
   \<and> col_timestamp (example_rows ! 1) = end_ts - 1
   \<and> col_timestamp (example_rows ! 1) < end_ts
   \<and> day_of (col_timestamp (example_rows ! 1)) \<le> days_from_civil 2024 12 30"
proof -
  have m: "example_rows ! 1 \<in> set example_rows" by (simp add: example_rows_def)
  have c: "col_timestamp (example_rows ! 1) = end_ts - 1"
    by (simp add: example_rows_def end_ts_eq)
  show ?thesis
    using example_wf_seconds example_generate m c
      timestamps_in_half_open_window [OF example_wf_seconds example_generate m]
    by blast
qed

text \<open>
  Claim C7 as stated fails: the window start plus \<open>total_seconds\<close> is the first instant
  of 2024-12-31, and no offset that the generator can draw gives a timestamp on 2024-12-31.
\<close>

theorem end_date_outside_sampled_range:
  "start_ts + total_seconds = end_ts
   \<and> \<not> (\<exists>k. integers_range 0 total_seconds k
            \<and> day_of (start_ts + k) = days_from_civil 2024 12 31)"
proof -
  have "day_of (start_ts + k) \<noteq> days_from_civil 2024 12 31"
    if "integers_range 0 total_seconds k" for k
    using offset_day_bounds(2) [OF that] unfolding window_days by simp
  then show ?thesis by (auto simp: total_seconds_def)
qed

subsection \<open>Normalisation of the raw risk\<close>

lemma np_minimum_Fin: "np_minimum (Fin a) (Fin b) = Fin (min a b)"
  by (simp add: np_minimum_def min_def)

lemma np_maximum_Fin: "np_maximum (Fin a) (Fin b) = Fin (max a b)"
  by (simp add: np_maximum_def max_def)

lemma fold_np_minimum:
  "fold (\<lambda>y m. np_minimum m y) (map Fin vs) (Fin a) = Fin (fold min vs a)"
  by (induction vs arbitrary: a) (simp_all add: np_minimum_Fin min.commute)

lemma fold_np_maximum:
  "fold (\<lambda>y m. np_maximum m y) (map Fin vs) (Fin a) = Fin (fold max vs a)"
  by (induction vs arbitrary: a) (simp_all add: np_maximum_Fin max.commute)

lemma amin_Fin: "vs \<noteq> [] \<Longrightarrow> amin (map Fin vs) = Inr (Fin (Min (set vs)))"
proof (cases vs)
  case (Cons a list)
  have "amin (map Fin vs) = Inr (Fin (fold min list a))"
    by (simp add: Cons amin_def fold_np_minimum)
  also have "fold min list a = Min (set vs)" unfolding Cons by (rule Min.set_eq_fold [symmetric])
  finally show ?thesis .
qed simp

lemma amax_Fin: "vs \<noteq> [] \<Longrightarrow> amax (map Fin vs) = Inr (Fin (Max (set vs)))"
proof (cases vs)
  case (Cons a list)
  have "amax (map Fin vs) = Inr (Fin (fold max list a))"
    by (simp add: Cons amax_def fold_np_maximum)
  also have "fold max list a = Max (set vs)" unfolding Cons by (rule Max.set_eq_fold [symmetric])
  finally show ?thesis .
qed simp

lemma np_subtract_Fin: "np_subtract (Fin a) (Fin b) = Fin (a - b)"
  by (simp add: np_subtract_def)

lemma batch_raw_risk_finite: "\<exists>vs. batch_raw_risk d N = map Fin vs \<and> length vs = N"
proof -
  let ?v = "\<lambda>i. fail_base (MERCHANT_CATEGORIES (d_merchant_cats d i))
                  * geo_fail_mult (GEOGRAPHIES (d_geos d i))
                  * pm_fail_mult (PAYMENT_METHODS (d_pay_methods d i))
                + min (max ((of_int (rint (max 1 (exp (ln (avg_amount (MERCHANT_CATEGORIES
                                 (d_merchant_cats d i))) + 0.7 * d_lognormal_z d i)) * 10 ^ 2))
                             / 10 ^ 2 - 50) / 1000) 0) 0.12"
  have "batch_raw_risk d N = map Fin (map ?v [0..<N])"
  proof (rule nth_equalityI)
    show "length (batch_raw_risk d N) = length (map Fin (map ?v [0..<N]))"
      by (simp add: batch_raw_risk_def)
  next
    fix i assume "i < length (batch_raw_risk d N)"
    then have i: "i < N" by (simp add: batch_raw_risk_def)
    have m: "merchant_cats d N ! i = d_merchant_cats d i" using i by (simp add: merchant_cats_def)
    show "batch_raw_risk d N ! i = map Fin (map ?v [0..<N]) ! i"
      using i
      by (simp add: batch_raw_risk_def raw_risk_def mc_base_def geo_mult_def pm_mult_def
          amount_risk_def amounts_nth m np_subtract_def np_clip_Fin geos_def pay_methods_def)
  qed
  then show ?thesis by (intro exI [of _ "map ?v [0..<N]"]) simp
qed

lemma risk_score_base_Fin:
  assumes "vs \<noteq> []"
  shows "risk_score_base (map Fin vs)
           = Inr (map (\<lambda>v. np_divide (Fin (v - Min (set vs))) (Fin (Max (set vs) - Min (set vs)))) vs)"
  using assms
  by (simp add: risk_score_base_def amin_Fin amax_Fin np_subtract_Fin comp_def
      del: np_divide.simps)

lemma noise_nth: "i < N \<Longrightarrow> noise d N ! i = Fin (0.04 * d_noise_z d i)"
  by (simp add: noise_def normal_def)

lemma np_round_unit:
  assumes "0 \<le> s" "s \<le> 1"
  shows "\<exists>t. np_round (Fin s) 4 = Fin t \<and> 0 \<le> t \<and> t \<le> 1"
proof -
  let ?y = "s * 10 ^ 4"
  have "of_int 0 \<le> ?y" "?y \<le> of_int 10000" using assms by simp_all
  then have "0 \<le> rint ?y" "rint ?y \<le> 10000" by (simp_all add: rint_ge rint_le)
  then have "0 \<le> real_of_int (rint ?y) / 10 ^ 4" "real_of_int (rint ?y) / 10 ^ 4 \<le> 1"
    by simp_all
  moreover have "np_round (Fin s) 4 = Fin (real_of_int (rint ?y) / 10 ^ 4)"
    by (simp only: np_round.simps)
  ultimately show ?thesis by blast
qed

subsection \<open>The risk score\<close>

lemma generate_base:
  assumes "generate d N = Inr rows"
  obtains base where "risk_score_base (batch_raw_risk d N) = Inr base" "length base = N"
    "length rows = N"
    "\<And>i. i < N \<Longrightarrow> col_pre_auth_risk_score (rows ! i)
        = np_round (pre_auth_risk_score base (noise d N) ! i) 4"
    "\<And>i. i < N \<Longrightarrow> col_status (rows ! i)
        = (if is_failed d (fail_probs (pre_auth_risk_score base (noise d N))) ! i
           then ''failed'' else ''success'')"
  using assms unfolding batch_raw_risk_def by (elim generate_InrE) blast

lemma pre_auth_risk_score_nth:
  "i < length base \<Longrightarrow> i < N \<Longrightarrow>
     pre_auth_risk_score base (noise d N) ! i
       = np_clip (np_add (base ! i) (Fin (0.04 * d_noise_z d i))) (Fin 0) (Fin 1)"
  by (simp add: pre_auth_risk_score_def noise_nth)

lemma ex_batch_raw_risk:
  "batch_raw_risk example_draws 4
     = [Fin (9 / 100), Fin (237 / 1000), Fin (33 / 200), Fin (29 / 250)]"
  unfolding batch_raw_risk_def ex_mcs ex_geos ex_pms ex_amounts ex_raw ..

lemma ex_spread: "amin (batch_raw_risk example_draws 4) \<noteq> amax (batch_raw_risk example_draws 4)"
  by (simp add: ex_batch_raw_risk amin_def amax_def np_minimum_Fin np_maximum_Fin)

subsection \<open>The batch without spread, evaluated\<close>

lemma upt2: "[0..<2] = [0, 1]"
  by (simp add: upt_rec)

lemma dg_mcs: "merchant_cats degenerate_draws 2 = [Gaming, Gaming]"
  by (simp add: merchant_cats_def degenerate_draws_def example_draws_def upt2)

lemma dg_geos: "geos degenerate_draws 2 = [US, US]"
  by (simp add: geos_def degenerate_draws_def example_draws_def upt2)

lemma dg_pms: "pay_methods degenerate_draws 2 = [Credit_Card, Credit_Card]"
  by (simp add: pay_methods_def degenerate_draws_def example_draws_def upt2)

lemma dg_amounts: "amounts degenerate_draws [Gaming, Gaming] = [Fin 25, Fin 25]"
  by (simp add: amounts_def amounts_raw_def degenerate_draws_def example_draws_def lognormal_def
      py_max_def rint_def Let_def)

lemma dg_raw:
  "raw_risk [Gaming, Gaming] [US, US] [Credit_Card, Credit_Card] [Fin 25, Fin 25]
     = [Fin (9 / 100), Fin (9 / 100)]"
  by (simp add: raw_risk_def mc_base_def geo_mult_def pm_mult_def amount_risk_def
      np_subtract_def np_clip_Fin)

lemma dg_base: "risk_score_base [Fin (9 / 100), Fin (9 / 100)] = Inr [NaN, NaN]"
  by (simp add: risk_score_base_def amin_def amax_def np_minimum_def np_maximum_def
      np_subtract_def)

lemma dg_noise: "noise degenerate_draws 2 = [Fin 0, Fin 0]"
  by (simp add: noise_def normal_def degenerate_draws_def example_draws_def upt2)

lemma dg_scores: "pre_auth_risk_score [NaN, NaN] [Fin 0, Fin 0] = [NaN, NaN]"
  by (simp add: pre_auth_risk_score_def np_clip_def np_maximum_def np_minimum_def)

lemma fail_prob_NaN: "fail_prob NaN = NaN"
  by (simp add: fail_prob_def Let_def np_subtract_def sigmoid_def np_clip_def np_maximum_def
      np_minimum_def)

lemma dg_failed: "is_failed degenerate_draws (fail_probs [NaN, NaN]) = [False, False]"
  by (simp add: is_failed_def fail_probs_def fail_prob_NaN)

lemma dg_ts: "timestamps (raw_seconds degenerate_draws 2) = [1688169600, 1735603199]"
  by (simp add: timestamps_def raw_seconds_def degenerate_draws_def example_draws_def upt2
      start_ts_eq)

lemma dg_codes: "failure_codes degenerate_draws [False, False] = [''success'', ''success'']"
  by (simp add: failure_codes_def failed_idx_def upt2 failure_codes_init_def astype_U30_def)

lemma dg_retr: "is_retryable [''success'', ''success''] = Inr [False, False]"
  by (simp add: lookup_retryable_def)

lemma dg_recd:
  "retry_recovered degenerate_draws [False, False] [''success'', ''success''] = [False, False]"
  by (simp add: retry_recovered_def failed_idx_def upt2 retryable_mask_def retryable_failed_idx_def)

lemma degenerate_generate: "generate degenerate_draws 2 = Inr degenerate_rows"
  unfolding generate_def Let_def dg_mcs dg_geos dg_pms dg_amounts dg_raw dg_base sum.case
    dg_noise dg_scores dg_failed dg_codes dg_retr dg_recd dg_ts
  by (simp add: hours_def dow_def weekend_def day_of_def is_recoverable_def astype_int_def
      upt2 degenerate_rows_def)

lemma degenerate_batch_raw_risk:
  "batch_raw_risk degenerate_draws 2 = [Fin (9 / 100), Fin (9 / 100)]"
  unfolding batch_raw_risk_def dg_mcs dg_geos dg_pms dg_amounts dg_raw ..

subsection \<open>Range of the risk score\<close>

text \<open>
  When the minimum and the maximum of \<open>raw_risk\<close> differ, the clip does its work: the
  score of every row is a number in [0, 1].
\<close>

lemma spread_score_in_unit_interval:
  assumes gen: "generate d N = Inr rows" and r: "r \<in> set rows"
    and spread: "amin (batch_raw_risk d N) \<noteq> amax (batch_raw_risk d N)"
  shows "(\<exists>s. col_pre_auth_risk_score r = Fin s \<and> 0 \<le> s \<and> s \<le> 1)
         \<and> in_unit_interval (col_pre_auth_risk_score r)"
proof -
  from gen obtain base where base: "risk_score_base (batch_raw_risk d N) = Inr base"
    and len: "length base = N" "length rows = N"
    and col: "\<And>i. i < N \<Longrightarrow> col_pre_auth_risk_score (rows ! i)
        = np_round (pre_auth_risk_score base (noise d N) ! i) 4"
    by (rule generate_base) blast
  from r len(2) obtain i where i: "i < N" "r = rows ! i" by (rule in_set_rowsE)
  obtain vs where vs: "batch_raw_risk d N = map Fin vs" "length vs = N"
    using batch_raw_risk_finite by blast
  have ne: "vs \<noteq> []" using vs(2) i(1) by auto
  let ?mn = "Min (set vs)" and ?mx = "Max (set vs)"
  have "?mn \<noteq> ?mx" using spread unfolding vs(1) amin_Fin [OF ne] amax_Fin [OF ne] by simp
  then have nz: "?mx - ?mn \<noteq> 0" by simp
  have "base = map (\<lambda>v. np_divide (Fin (v - ?mn)) (Fin (?mx - ?mn))) vs"
    using base unfolding vs(1) risk_score_base_Fin [OF ne] by simp
  then have "base ! i = Fin ((vs ! i - ?mn) / (?mx - ?mn))"
    using i(1) vs(2) nz by simp
  then have "pre_auth_risk_score base (noise d N) ! i
               = Fin (min (max ((vs ! i - ?mn) / (?mx - ?mn) + 0.04 * d_noise_z d i) 0) 1)"
    using pre_auth_risk_score_nth [of i base N d] i(1) len(1) by (simp add: np_clip_Fin)
  moreover obtain t where
    "np_round (Fin (min (max ((vs ! i - ?mn) / (?mx - ?mn) + 0.04 * d_noise_z d i) 0) 1)) 4 = Fin t"
    "0 \<le> t" "t \<le> 1"
    using np_round_unit [of "min (max ((vs ! i - ?mn) / (?mx - ?mn) + 0.04 * d_noise_z d i) 0) 1"]
    by auto
  ultimately have "col_pre_auth_risk_score r = Fin t" "0 \<le> t" "t \<le> 1"
    using col [OF i(1)] i(2) by simp_all
  then show ?thesis by (simp add: in_unit_interval_def np_less_equal_Fin)
qed

subsection \<open>A batch of equal raw risks\<close>


lemma is_failed_nth:
  "i < length fps \<Longrightarrow> is_failed d fps ! i = np_less (Fin (d_outcome_u d i)) (fps ! i)"
  by (simp add: is_failed_def nth_enumerate_eq)



subsection \<open>Rows that agree in every draw\<close>

lemma degenerate_raw_risk: "batch_raw_risk degenerate_draws N = replicate N (Fin (9 / 100))"
proof (rule nth_equalityI)
  show "length (batch_raw_risk degenerate_draws N) = length (replicate N (Fin (9 / 100)))"
    by (simp add: batch_raw_risk_def)
next
  fix i assume "i < length (batch_raw_risk degenerate_draws N)"
  then have i: "i < N" by (simp add: batch_raw_risk_def)
  have m: "merchant_cats degenerate_draws N ! i = Gaming"
    using i by (simp add: merchant_cats_def degenerate_draws_def)
  have g: "geos degenerate_draws N ! i = US"
    using i by (simp add: geos_def degenerate_draws_def example_draws_def)
  have p: "pay_methods degenerate_draws N ! i = Credit_Card"
    using i by (simp add: pay_methods_def degenerate_draws_def example_draws_def)
  have z: "d_lognormal_z degenerate_draws i = 0"
    by (simp add: degenerate_draws_def example_draws_def)
  have "amounts degenerate_draws (merchant_cats degenerate_draws N) ! i
          = Fin (of_int (rint (max 1 (exp (ln (avg_amount (MERCHANT_CATEGORIES Gaming))
                                         + 0.7 * 0)) * 10 ^ 2)) / 10 ^ 2)"
    using amounts_nth [of i "merchant_cats degenerate_draws N" degenerate_draws] i
    by (simp only: m z length_dims)
  also have "\<dots> = Fin 25" by (simp add: rint_def Let_def)
  finally have a: "amounts degenerate_draws (merchant_cats degenerate_draws N) ! i = Fin 25" .
  show "batch_raw_risk degenerate_draws N ! i = replicate N (Fin (9 / 100)) ! i"
    using i
    by (simp add: batch_raw_risk_def raw_risk_def mc_base_def geo_mult_def pm_mult_def
        amount_risk_def a m g p np_subtract_def np_clip_Fin)
qed

lemma degenerate_set: "0 < N \<Longrightarrow> set (batch_raw_risk degenerate_draws N) = {Fin (9 / 100)}"
  by (simp add: degenerate_raw_risk)

lemma degenerate_wf_choices: "wf_choices degenerate_draws N"
  by (simp add: wf_choices_def list_all_iff degenerate_draws_def example_draws_def
      RETRY_CODES_eq NON_RETRY_CODES_eq)

lemma N_const_pos: "0 < N_const"
  by (simp add: N_const_def)


text \<open>
  Claim C9, as amended. When every row of a batch has the same raw risk, the division by
  \<open>max - min\<close> is a division by zero that raises no error: the run does not abort, it
  returns its table of \<open>N\<close> rows.
\<close>

theorem equal_raw_risk_run_returns:
  assumes wf: "wf_choices d N" and same: "set (batch_raw_risk d N) = {x}"
  shows "(\<exists>rows. generate d N = Inr rows \<and> length rows = N)
         \<and> \<not> (\<exists>e. generate d N = Inl e)"
proof -
  have "batch_raw_risk d N \<noteq> []" using same by auto
  moreover have "length (batch_raw_risk d N) = N" by (simp add: batch_raw_risk_def)
  ultimately have "0 < N" by (cases "batch_raw_risk d N") auto
  with wf obtain rows where gen: "generate d N = Inr rows" using generate_total by blast
  then have "length rows = N" by (rule generate_base)
  with gen show ?thesis by simp
qed

theorem equal_raw_risk_run_returns_witness:
  "wf_choices degenerate_draws N_const
   \<and> set (batch_raw_risk degenerate_draws N_const) = {Fin (9 / 100)}
   \<and> (\<exists>rows. generate degenerate_draws N_const = Inr rows \<and> length rows = N_const)
   \<and> \<not> (\<exists>e. generate degenerate_draws N_const = Inl e)"
  using degenerate_wf_choices [of N_const] degenerate_set [OF N_const_pos]
    equal_raw_risk_run_returns [OF degenerate_wf_choices degenerate_set [OF N_const_pos]]
  by blast

text \<open>
  Claim C9 as stated fails: on \<open>N_const\<close> rows of equal raw risk, and on two such rows,
  the run returns a table and no error.
\<close>

theorem equal_raw_risk_raises_no_error:
  "set (batch_raw_risk degenerate_draws N_const) = {Fin (9 / 100)}
   \<and> \<not> (\<exists>e. generate degenerate_draws N_const = Inl e)
   \<and> set (batch_raw_risk degenerate_draws 2) = {Fin (9 / 100)}
   \<and> generate degenerate_draws 2 = Inr degenerate_rows
   \<and> \<not> (\<exists>e. generate degenerate_draws 2 = Inl e)"
proof -
  obtain rows where "generate degenerate_draws N_const = Inr rows"
    using generate_total [OF degenerate_wf_choices N_const_pos] by blast
  then have "\<not> (\<exists>e. generate degenerate_draws N_const = Inl e)" by simp
  moreover have "set (batch_raw_risk degenerate_draws 2) = {Fin (9 / 100)}"
    by (simp add: degenerate_batch_raw_risk)
  ultimately show ?thesis
    using degenerate_set [OF N_const_pos] degenerate_generate by simp
qed

subsection \<open>The probability of the status draw\<close>

lemma np_clip_unit_cases:
  "(\<exists>s. np_clip y (Fin 0) (Fin 1) = Fin s \<and> 0 \<le> s \<and> s \<le> 1) \<or> np_clip y (Fin 0) (Fin 1) = NaN"
  by (cases y) (simp_all add: np_clip_def np_maximum_def np_minimum_def)

lemma run_scores_base:
  "risk_score_base (batch_raw_risk d N) = Inr base \<Longrightarrow>
     run_scores d N = pre_auth_risk_score base (noise d N)"
  by (simp add: run_scores_def)

lemma ex_run_scores:
  "run_scores example_draws 4 = [Fin 0, Fin 1, Fin (25 / 49), Fin (26 / 147)]"
  unfolding run_scores_def ex_batch_raw_risk ex_base sum.case ex_noise ex_scores ..

text \<open>
  Claim C4. For row \<open>i\<close> of a generated table, let \<open>s\<close> be the score of the row in the
  array \<open>pre_auth_risk_score\<close> of the run (the column holds \<open>s\<close> rounded to 4 decimal
  places). The failure probability of the row is
  \<open>clip(sigmoid((s - 0.45) / 0.025) * 0.40 + 0.03, 0.02, 0.90)\<close> with
  \<open>sigmoid(x) = 1 / (1 + exp(-x))\<close>, and the row's status is \<open>failed\<close> exactly when the
  uniform draw of the row is below this probability. The score is a number in [0, 1] or
  NaN; on NaN every operation of the formula gives NaN, the comparison is false and the
  status is \<open>success\<close>.
\<close>

theorem status_draw_uses_spec_fail_prob:
  assumes gen: "generate d N = Inr rows" and i: "i < N"
  shows "col_pre_auth_risk_score (rows ! i) = np_round (run_scores d N ! i) 4
         \<and> ((\<exists>s. run_scores d N ! i = Fin s \<and> 0 \<le> s \<and> s \<le> 1
                \<and> fail_probs (run_scores d N) ! i = Fin (spec_fail_prob s)
                \<and> (col_status (rows ! i) = ''failed'') = (d_outcome_u d i < spec_fail_prob s)
                \<and> (col_status (rows ! i) = ''success'') = (\<not> d_outcome_u d i < spec_fail_prob s))
             \<or> (run_scores d N ! i = NaN \<and> fail_probs (run_scores d N) ! i = NaN
                 \<and> col_status (rows ! i) = ''success''))"
proof -
  from gen obtain base where base: "risk_score_base (batch_raw_risk d N) = Inr base"
    and len: "length base = N"
    and col: "\<And>i. i < N \<Longrightarrow> col_pre_auth_risk_score (rows ! i)
        = np_round (pre_auth_risk_score base (noise d N) ! i) 4"
    and status: "\<And>i. i < N \<Longrightarrow> col_status (rows ! i)
        = (if is_failed d (fail_probs (pre_auth_risk_score base (noise d N))) ! i
           then ''failed'' else ''success'')"
    by (rule generate_base) blast
  note rs = run_scores_base [OF base]
  have ls: "length (run_scores d N) = N" by (simp add: rs len)
  have c: "col_pre_auth_risk_score (rows ! i) = np_round (run_scores d N ! i) 4"
    using col [OF i] by (simp add: rs)
  have p: "fail_probs (run_scores d N) ! i = fail_prob (run_scores d N ! i)"
    using i ls by (simp add: fail_probs_def)
  have st: "col_status (rows ! i)
      = (if np_less (Fin (d_outcome_u d i)) (fail_prob (run_scores d N ! i))
         then ''failed'' else ''success'')"
    using status [OF i] i ls p by (simp add: rs [symmetric] is_failed_nth)
  have sc: "run_scores d N ! i
      = np_clip (np_add (base ! i) (Fin (0.04 * d_noise_z d i))) (Fin 0) (Fin 1)"
    using pre_auth_risk_score_nth [of i base N d] i len by (simp add: rs)
  from np_clip_unit_cases [of "np_add (base ! i) (Fin (0.04 * d_noise_z d i))"]
  consider s where "run_scores d N ! i = Fin s" "0 \<le> s" "s \<le> 1" | "run_scores d N ! i = NaN"
    unfolding sc by blast
  then show ?thesis
  proof cases
    case 1
    have "fail_probs (run_scores d N) ! i = Fin (spec_fail_prob s)"
      using p 1(1) by (simp add: fail_prob_Fin)
    moreover have "(col_status (rows ! i) = ''failed'') = (d_outcome_u d i < spec_fail_prob s)"
      "(col_status (rows ! i) = ''success'') = (\<not> d_outcome_u d i < spec_fail_prob s)"
      using st 1(1) by (simp_all add: fail_prob_Fin)
    ultimately show ?thesis using c 1 by blast
  next
    case 2
    have "fail_probs (run_scores d N) ! i = NaN" using p 2 by (simp add: fail_prob_NaN)
    moreover have "col_status (rows ! i) = ''success''" using st 2 by (simp add: fail_prob_NaN)
    ultimately show ?thesis using c 2 by blast
  qed
qed

theorem status_draw_uses_spec_fail_prob_witness:
  "generate example_draws 4 = Inr example_rows \<and> (1::nat) < 4
   \<and> run_scores example_draws 4 ! 1 = Fin 1
   \<and> col_pre_auth_risk_score (example_rows ! 1) = np_round (Fin 1) 4
   \<and> fail_probs (run_scores example_draws 4) ! 1 = Fin (spec_fail_prob 1)
   \<and> d_outcome_u example_draws 1 < spec_fail_prob 1
   \<and> col_status (example_rows ! 1) = ''failed''"
proof -
  have i: "(1::nat) < 4" by simp
  have sc: "run_scores example_draws 4 ! 1 = Fin 1" by (simp add: ex_run_scores)
  have st: "col_status (example_rows ! 1) = ''failed''" by (simp add: example_rows_def)
  from status_draw_uses_spec_fail_prob [OF example_generate i]
  have "col_pre_auth_risk_score (example_rows ! 1) = np_round (Fin 1) 4"
    and "fail_probs (run_scores example_draws 4) ! 1 = Fin (spec_fail_prob 1)"
    and "(col_status (example_rows ! 1) = ''failed'')
           = (d_outcome_u example_draws 1 < spec_fail_prob 1)"
    unfolding sc by auto
  with example_generate i sc st show ?thesis by blast
qed

end
